theory Spec2Isabelle
  imports Main "HOL-Library.Word" "HOL-Library.AList"
begin

unbundle bit_operations_syntax

section \<open>JavaScript strings\<close>

text \<open>
  A JavaScript string is a sequence of UTF-16 code units. Every string operation of
  \<^verbatim>\<open>kb.ts\<close> (\<^verbatim>\<open>trim\<close>, \<^verbatim>\<open>startsWith\<close>, \<^verbatim>\<open>slice\<close>, \<^verbatim>\<open>indexOf\<close>,
  \<^verbatim>\<open>split\<close>, \<^verbatim>\<open>replace\<close>, the regular expressions) works on code units, so
  the model does too. \<open>u16 ''abc''\<close> is the string of an ASCII (Latin-1) literal.
\<close>

type_synonym jschar = "16 word"
type_synonym jsstring = "jschar list"

definition ch :: "char \<Rightarrow> jschar" where
  "ch c = of_char c"

definition u16 :: "string \<Rightarrow> jsstring" where
  "u16 s = map ch s"

text \<open>
  The code units \<^verbatim>\<open>String.prototype.trim\<close> removes: WhiteSpace (TAB, VT, FF, SP,
  NBSP, ZWNBSP and the Unicode space separators) and LineTerminator (LF, CR, LS, PS).
\<close>

definition is_ws :: "jschar \<Rightarrow> bool" where
  "is_ws c \<longleftrightarrow>
     c = 0x0009 \<or> c = 0x000A \<or> c = 0x000B \<or> c = 0x000C \<or> c = 0x000D \<or> c = 0x0020 \<or>
     c = 0x00A0 \<or> c = 0x1680 \<or> (0x2000 \<le> c \<and> c \<le> 0x200A) \<or> c = 0x2028 \<or>
     c = 0x2029 \<or> c = 0x202F \<or> c = 0x205F \<or> c = 0x3000 \<or> c = 0xFEFF"

definition trimStart :: "jsstring \<Rightarrow> jsstring" where
  "trimStart s = dropWhile is_ws s"

definition trimEnd :: "jsstring \<Rightarrow> jsstring" where
  "trimEnd s = rev (dropWhile is_ws (rev s))"

definition trim :: "jsstring \<Rightarrow> jsstring" where
  "trim s = trimEnd (trimStart s)"

definition startsWith :: "jsstring \<Rightarrow> jsstring \<Rightarrow> bool" where
  "startsWith s p \<longleftrightarrow> take (length p) s = p"

text \<open>
  \<^verbatim>\<open>s.indexOf(p)\<close>: the index of the first occurrence of \<open>p\<close> in \<open>s\<close>, or -1.
\<close>

fun indexOf_from :: "nat \<Rightarrow> jsstring \<Rightarrow> jsstring \<Rightarrow> int" where
  "indexOf_from i [] p = (if p = [] then int i else -1)"
| "indexOf_from i (c # s) p =
     (if startsWith (c # s) p then int i else indexOf_from (Suc i) s p)"

definition indexOf :: "jsstring \<Rightarrow> jsstring \<Rightarrow> int" where
  "indexOf s p = indexOf_from 0 s p"

text \<open>
  \<^verbatim>\<open>s.slice(a)\<close> and \<^verbatim>\<open>s.slice(a, b)\<close>; the handler only calls them with indices
  between 0 and the length of \<open>s\<close>.
\<close>

definition slice_from :: "jsstring \<Rightarrow> nat \<Rightarrow> jsstring" where
  "slice_from s a = drop a s"

definition slice_between :: "jsstring \<Rightarrow> nat \<Rightarrow> nat \<Rightarrow> jsstring" where
  "slice_between s a b = take (b - a) (drop a s)"

text \<open>
  \<^verbatim>\<open>s.replace(pat, rep)\<close> with a string pattern replaces the first occurrence only
  (the handler's replacement \<^verbatim>\<open>''\<close> has no \<^verbatim>\<open>$\<close> pattern).
\<close>

fun replace_first :: "jsstring \<Rightarrow> jsstring \<Rightarrow> jsstring \<Rightarrow> jsstring" where
  "replace_first [] pat rep = (if pat = [] then rep else [])"
| "replace_first (c # s) pat rep =
     (if startsWith (c # s) pat then rep @ drop (length pat) (c # s)
      else c # replace_first s pat rep)"

text \<open>\<^verbatim>\<open>s.split(sep)\<close> for a separator of one code unit.\<close>

fun split :: "jsstring \<Rightarrow> jschar \<Rightarrow> jsstring list" where
  "split [] sep = [[]]"
| "split (c # s) sep =
     (if c = sep then [] # split s sep
      else (case split s sep of [] \<Rightarrow> [[c]] | w # ws \<Rightarrow> (c # w) # ws))"

text \<open>\<^verbatim>\<open>s.replace(/\/$/, '')\<close>: one slash at the very end of the string is removed.\<close>

definition strip_trailing_slash :: "jsstring \<Rightarrow> jsstring" where
  "strip_trailing_slash s = (if s \<noteq> [] \<and> last s = ch CHR ''/'' then butlast s else s)"

text \<open>Decimal rendering of a natural number, as a template literal prints an HTTP status.\<close>

definition digit :: "nat \<Rightarrow> jschar" where
  "digit d = 0x30 + of_nat d"

fun show_nat :: "nat \<Rightarrow> jsstring" where
  "show_nat n = (if n < 10 then [digit n] else show_nat (n div 10) @ [digit (n mod 10)])"

declare show_nat.simps [simp del]

text \<open>
  A JavaScript number is an IEEE-754 double. The numbers the extension computes with are
  page versions, which are integers; an integer stands for the double of that value, so it
  is a number when \<open>round_to_double\<close> leaves it unchanged. \<open>round_to_double n\<close> is the double
  nearest to the integer \<open>n\<close>, ties to the even significand (of 53 bits), for \<open>n\<close> within
  the range of the finite doubles; \<open>number_plus\<close> is \<^verbatim>\<open>+\<close> on two such numbers.
\<close>

fun bit_count :: "nat \<Rightarrow> nat" where
  "bit_count n = (if n = 0 then 0 else Suc (bit_count (n div 2)))"

declare bit_count.simps [simp del]

definition round_to_double :: "int \<Rightarrow> int" where
  "round_to_double n =
     (let a = nat \<bar>n\<bar>
      in if a < 2 ^ 53 then n
         else
           let k = bit_count a - 53;
               q = a div 2 ^ k;
               r = a mod 2 ^ k;
               q' = (if 2 ^ (k - 1) < r \<or> (r = 2 ^ (k - 1) \<and> odd q) then q + 1 else q)
           in sgn n * int (q' * 2 ^ k))"

definition number_plus :: "int \<Rightarrow> int \<Rightarrow> int" where
  "number_plus a b = round_to_double (a + b)"

section \<open>The prompt normaliser\<close>

text \<open>
  The regular expression \<^verbatim>\<open>/^\[([^\]]+)\]\([^\)]*\)$/\<close> applied to the whole string:
  an opening bracket, the captured group of one or more code units other than the closing
  bracket, the two code units \<^verbatim>\<open>](\<close>, any number of code units other than the closing
  parenthesis, and a closing parenthesis at the end of the input. The group cannot hold a
  closing bracket, so it is the longest run without one; the result is the captured group.
\<close>

definition linkMatch :: "jsstring \<Rightarrow> jsstring option" where
  "linkMatch s =
     (case s of
        [] \<Rightarrow> None
      | c # r \<Rightarrow>
          if c \<noteq> ch CHR ''['' then None
          else
            let label = takeWhile (\<lambda>x. x \<noteq> ch CHR '']'') r;
                r1 = dropWhile (\<lambda>x. x \<noteq> ch CHR '']'') r
            in if label = [] then None
               else (case r1 of
                       rb # lp # r2 \<Rightarrow>
                         if lp = ch CHR ''('' \<and>
                            dropWhile (\<lambda>x. x \<noteq> ch CHR '')'') r2 = [ch CHR '')'']
                         then Some label else None
                     | _ \<Rightarrow> None))"

text \<open>
  \<^verbatim>\<open>normalizePrompt(input)\<close>; \<open>None\<close> is an \<^verbatim>\<open>undefined\<close> (or \<^verbatim>\<open>null\<close>) input.
\<close>

definition normalizePrompt :: "jsstring option \<Rightarrow> jsstring" where
  "normalizePrompt input =
     (let raw = (case input of None \<Rightarrow> [] | Some i \<Rightarrow> i)
      in case linkMatch (trim raw) of
           Some label \<Rightarrow> trim label
         | None \<Rightarrow> trim raw)"

text \<open>
  What the specification calls a single markdown link spanning the whole string:
  \<^verbatim>\<open>[label](target)\<close> with a non-empty label free of \<^verbatim>\<open>]\<close> and a target free of
  \<^verbatim>\<open>)\<close>.
\<close>

definition pure_link :: "jsstring \<Rightarrow> jsstring \<Rightarrow> jsstring \<Rightarrow> bool" where
  "pure_link s label target \<longleftrightarrow>
     s = u16 ''['' @ label @ u16 ''](''  @ target @ u16 '')'' \<and>
     label \<noteq> [] \<and> ch CHR '']'' \<notin> set label \<and> ch CHR '')'' \<notin> set target"

section \<open>Platform functions: UTF-8, Base64, JSON values\<close>

text \<open>
  \<^verbatim>\<open>Buffer.from(s)\<close> encodes a string as UTF-8 (a surrogate pair is one code point, a
  lone surrogate becomes U+FFFD); code units and bytes are read as natural numbers here.
\<close>

fun utf8 :: "nat list \<Rightarrow> nat list" where
  "utf8 [] = []"
| "utf8 (c # cs) =
     (if c < 0x80 then c # utf8 cs
      else if c < 0x800 then (0xC0 + c div 0x40) # (0x80 + c mod 0x40) # utf8 cs
      else if 0xD800 \<le> c \<and> c < 0xDC00 then
        (case cs of
           [] \<Rightarrow> [0xEF, 0xBF, 0xBD]
         | d # ds \<Rightarrow>
             if 0xDC00 \<le> d \<and> d < 0xE000 then
               (let cp = 0x10000 + (c - 0xD800) * 0x400 + (d - 0xDC00)
                in (0xF0 + cp div 0x40000) # (0x80 + cp div 0x1000 mod 0x40) #
                   (0x80 + cp div 0x40 mod 0x40) # (0x80 + cp mod 0x40) # utf8 ds)
             else 0xEF # 0xBF # 0xBD # utf8 cs)
      else if 0xDC00 \<le> c \<and> c < 0xE000 then 0xEF # 0xBF # 0xBD # utf8 cs
      else (0xE0 + c div 0x1000) # (0x80 + c div 0x40 mod 0x40) # (0x80 + c mod 0x40) # utf8 cs)"

definition b64_symbol :: "nat \<Rightarrow> jschar" where
  "b64_symbol n =
     u16 ''ABCDEFGHIJKLMNOPQRSTUVWXYZabcdefghijklmnopqrstuvwxyz0123456789+/'' ! (n mod 64)"

fun base64 :: "nat list \<Rightarrow> jsstring" where
  "base64 [] = []"
| "base64 [a] = [b64_symbol (a div 4), b64_symbol (a mod 4 * 16), ch CHR ''='', ch CHR ''='']"
| "base64 [a, b] =
     [b64_symbol (a div 4), b64_symbol (a mod 4 * 16 + b div 16), b64_symbol (b mod 16 * 4),
      ch CHR ''='']"
| "base64 (a # b # c # r) =
     b64_symbol (a div 4) # b64_symbol (a mod 4 * 16 + b div 16) #
     b64_symbol (b mod 16 * 4 + c div 64) # b64_symbol (c mod 64) # base64 r"

text \<open>\<^verbatim>\<open>Buffer.from(s).toString('base64')\<close>\<close>

definition Buffer_base64 :: "jsstring \<Rightarrow> jsstring" where
  "Buffer_base64 s = base64 (utf8 (map unat s))"

text \<open>
  A value that \<^verbatim>\<open>JSON.parse\<close> returns. A number is carried as the two observations the
  handler makes of it: whether it is zero (the only falsy numbers JSON can denote) and the
  text that \<^verbatim>\<open>String\<close> gives it. An object holds its own properties, one entry a key.
\<close>

datatype json =
    JNull
  | JBool bool
  | JNum bool jsstring
  | JStr jsstring
  | JArr "json list"
  | JObj "(jsstring \<times> json) list"

text \<open>
  Reading a property of a value other than \<^verbatim>\<open>null\<close>, for the names the handler reads
  (\<^verbatim>\<open>token\<close>, \<^verbatim>\<open>url\<close>, \<^verbatim>\<open>email\<close>): only an object can have them; \<open>None\<close>
  is \<^verbatim>\<open>undefined\<close>.
\<close>

fun member :: "json \<Rightarrow> jsstring \<Rightarrow> json option" where
  "member (JObj kvs) k = map_of kvs k"
| "member _ k = None"

text \<open>Assigning a property of an object.\<close>

fun assign :: "json \<Rightarrow> jsstring \<Rightarrow> json \<Rightarrow> json" where
  "assign (JObj kvs) k v = JObj (AList.update k v kvs)"
| "assign d k v = d"

text \<open>Truthiness, as \<^verbatim>\<open>!x\<close> tests it.\<close>

fun truthy :: "json option \<Rightarrow> bool" where
  "truthy None = False"
| "truthy (Some JNull) = False"
| "truthy (Some (JBool b)) = b"
| "truthy (Some (JNum zero t)) = (\<not> zero)"
| "truthy (Some (JStr s)) = (s \<noteq> [])"
| "truthy (Some (JArr xs)) = True"
| "truthy (Some (JObj kvs)) = True"

text \<open>\<^verbatim>\<open>xs.join(',')\<close>\<close>

fun join_comma :: "jsstring list \<Rightarrow> jsstring" where
  "join_comma [] = []"
| "join_comma [x] = x"
| "join_comma (x # y # ys) = x @ ch CHR '','' # join_comma (y # ys)"

text \<open>
  \<^verbatim>\<open>String(v)\<close>, \<open>None\<close> when it throws a TypeError. An array is its elements joined by
  commas, with \<^verbatim>\<open>null\<close> elements empty. An object is \<^verbatim>\<open>[object Object]\<close>, unless it
  has an own property \<^verbatim>\<open>toString\<close>: a parsed value is never callable, the inherited
  \<^verbatim>\<open>valueOf\<close> (or an own one, not callable either) gives no primitive, and the
  conversion throws.
\<close>

fun String_json :: "json \<Rightarrow> jsstring option" where
  "String_json JNull = Some (u16 ''null'')"
| "String_json (JBool b) = Some (if b then u16 ''true'' else u16 ''false'')"
| "String_json (JNum zero t) = Some t"
| "String_json (JStr s) = Some s"
| "String_json (JArr xs) =
     map_option join_comma (those (map (\<lambda>x. if x = JNull then Some [] else String_json x) xs))"
| "String_json (JObj kvs) =
     (if map_of kvs (u16 ''toString'') = None then Some (u16 ''[object Object]'') else None)"

definition String_js :: "json option \<Rightarrow> jsstring option" where
  "String_js v = (case v of None \<Rightarrow> Some (u16 ''undefined'') | Some j \<Rightarrow> String_json j)"

section \<open>Data of the extension\<close>

record ConfluenceAuth =
  token :: jsstring
  url :: jsstring
  email :: jsstring

text \<open>
  \<^verbatim>\<open>ConfluencePageContent\<close>, with the nested objects flattened: \<open>version_number\<close> is
  \<^verbatim>\<open>version.number\<close>, \<open>space_key\<close> is \<^verbatim>\<open>space.key\<close>, \<open>body_storage_value\<close> is
  \<^verbatim>\<open>body.storage.value\<close>, \<open>links_webui\<close> is \<^verbatim>\<open>_links.webui\<close>. A version number is an
  integer-valued number (see \<open>round_to_double\<close>).
\<close>

record ConfluencePageContent =
  page_id :: jsstring
  title :: jsstring
  version_number :: int
  space_key :: jsstring
  space_name :: "jsstring option"
  body_storage_value :: jsstring
  links_webui :: jsstring

text \<open>The object literal that \<^verbatim>\<open>/update\<close> sends, flattened in the same way.\<close>

record payload =
  payload_id :: jsstring
  payload_type :: jsstring
  payload_title :: jsstring
  payload_space_key :: jsstring
  payload_body_value :: jsstring
  payload_body_representation :: jsstring
  payload_version_number :: int

text \<open>
  A request body: a string, a structured value, or \<open>Stringified p\<close>, the text that
  \<^verbatim>\<open>JSON.stringify\<close> gives for the structured value \<open>p\<close>.
\<close>

datatype body = Text jsstring | Object payload | Stringified payload

text \<open>
  The fields of \<^verbatim>\<open>RequestInit\<close> that the extension reads or writes
  (\<open>http_method\<close> is \<^verbatim>\<open>init.method\<close>); \<open>None\<close> is an absent property. A header
  object is an association list in property order.
\<close>

record RequestInit =
  http_method :: "jsstring option"
  headers :: "(jsstring \<times> jsstring) list option"
  body :: "body option"

text \<open>One call \<^verbatim>\<open>fetch(url, init)\<close>.\<close>

record request =
  request_url :: jsstring
  request_init :: RequestInit

text \<open>
  What the extension reads of a \<^verbatim>\<open>Response\<close>: \<open>body_json\<close> is what
  \<^verbatim>\<open>response.json()\<close> settles to, \<open>Inl\<close> the message of the error it rejects with.
\<close>

record 'b response =
  status :: nat
  statusText :: jsstring
  body_json :: "jsstring + 'b"

definition ok :: "'b response \<Rightarrow> bool" where
  "ok r \<longleftrightarrow> 200 \<le> status r \<and> status r \<le> 299"

text \<open>\<^verbatim>\<open>fetch\<close> rejects with an error (its message) or resolves with a response.\<close>

datatype 'b fetched = Rejected jsstring | Resolved "'b response"

text \<open>
  The state: the module variable \<^verbatim>\<open>confluenceAuth\<close>, the value of the key
  \<^verbatim>\<open>kbAgentAuth\<close> in the host's global state, the remote service, and a record of the
  traffic so far, oldest first: the requests issued and what \<^verbatim>\<open>fetch\<close> settled to for
  each of them.
\<close>

record ('w, 'b) system =
  confluenceAuth :: "ConfluenceAuth option"
  kbAgentAuth :: "ConfluenceAuth option"
  remote :: 'w
  sent :: "request list"
  answers :: "'b fetched list"

text \<open>
  How a chat turn ends: one markdown reply, the fragments streamed from the language model,
  or an exception that leaves the handler.
\<close>

datatype outcome = Reply jsstring | Streamed "jsstring list" | Fault jsstring

text \<open>
  The collaborators: \<^verbatim>\<open>fetch\<close> against the remote service, \<^verbatim>\<open>JSON.parse\<close>
  (\<open>None\<close> when it throws), the text a template literal gives a number
  (\<^verbatim>\<open>Number.prototype.toString\<close>: the shortest digits that read back as the same double),
  and the conversational fallback on the original prompt.
\<close>

record ('w, 'b) platform =
  fetch :: "'w \<Rightarrow> request \<Rightarrow> 'b fetched \<times> 'w"
  JSON_parse :: "jsstring \<Rightarrow> json option"
  Number_toString :: "int \<Rightarrow> jsstring"
  chat :: "jsstring \<Rightarrow> outcome"

definition activate :: "('w, 'b) system \<Rightarrow> ('w, 'b) system" where
  "activate s = s\<lparr>confluenceAuth := kbAgentAuth s\<rparr>"

definition saveAuth :: "ConfluenceAuth \<Rightarrow> ('w, 'b) system \<Rightarrow> ('w, 'b) system" where
  "saveAuth auth s = s\<lparr>kbAgentAuth := Some auth, confluenceAuth := Some auth\<rparr>"

section \<open>The remote client\<close>

text \<open>\<^verbatim>\<open>{...target, ...src}\<close>: the properties of \<open>src\<close> are written over \<open>target\<close>.\<close>

definition spread :: "('k \<times> 'v) list \<Rightarrow> ('k \<times> 'v) list \<Rightarrow> ('k \<times> 'v) list" where
  "spread target src = fold (\<lambda>(k, v). AList.update k v) src target"

definition default_headers :: "ConfluenceAuth \<Rightarrow> (jsstring \<times> jsstring) list" where
  "default_headers a =
     (let authHeader = Buffer_base64 (email a @ u16 '':'' @ token a)
      in [(u16 ''Authorization'', u16 ''Basic '' @ authHeader),
          (u16 ''Content-Type'', u16 ''application/json''),
          (u16 ''Accept'', u16 ''application/json'')])"

text \<open>
  The object literal \<^verbatim>\<open>{ headers: { ...defaults, ...(options.headers || {}) }, ...options }\<close>:
  first the \<^verbatim>\<open>headers\<close> property is written, then every property of \<open>options\<close> is
  written over the result.
\<close>

definition merged_init :: "ConfluenceAuth \<Rightarrow> RequestInit \<Rightarrow> RequestInit" where
  "merged_init a options =
     (let literal = \<lparr>http_method = None,
                     headers = Some (spread (default_headers a)
                                 (case headers options of None \<Rightarrow> [] | Some h \<Rightarrow> h)),
                     body = None\<rparr>
      in \<lparr>http_method = (case http_method options of None \<Rightarrow> http_method literal | Some m \<Rightarrow> Some m),
          headers = (case headers options of None \<Rightarrow> headers literal | Some h \<Rightarrow> Some h),
          body = (case body options of None \<Rightarrow> body literal | Some b \<Rightarrow> Some b)\<rparr>)"

text \<open>\<^verbatim>\<open>if (merged.body && typeof merged.body === 'object') merged.body = JSON.stringify(merged.body)\<close>\<close>

definition stringify_body :: "RequestInit \<Rightarrow> RequestInit" where
  "stringify_body merged =
     (case body merged of
        Some (Object p) \<Rightarrow> merged\<lparr>body := Some (Stringified p)\<rparr>
      | _ \<Rightarrow> merged)"

definition build_request :: "ConfluenceAuth \<Rightarrow> jsstring \<Rightarrow> RequestInit \<Rightarrow> request" where
  "build_request a endpoint options =
     \<lparr>request_url = url a @ u16 ''/wiki/rest/api'' @ endpoint,
      request_init = stringify_body (merged_init a options)\<rparr>"

definition NOT_AUTHENTICATED_ERROR :: jsstring where
  "NOT_AUTHENTICATED_ERROR = u16 ''Not authenticated. Please run @kb_agent /auth first.''"

text \<open>The message \<^verbatim>\<open>`HTTP ${response.status}: ${response.statusText}`\<close>.\<close>

definition http_error :: "'b response \<Rightarrow> jsstring" where
  "http_error r = u16 ''HTTP '' @ show_nat (status r) @ u16 '': '' @ statusText r"

text \<open>
  \<^verbatim>\<open>makeConfluenceRequest(endpoint, options)\<close>: \<open>Inl\<close> is the message of the error
  thrown, \<open>Inr\<close> the value returned.
\<close>

definition makeConfluenceRequest ::
  "('w, 'b) platform \<Rightarrow> jsstring \<Rightarrow> RequestInit \<Rightarrow> ('w, 'b) system \<Rightarrow>
     (jsstring + 'b) \<times> ('w, 'b) system"
where
  "makeConfluenceRequest env endpoint options s =
     (case confluenceAuth s of
        None \<Rightarrow> (Inl NOT_AUTHENTICATED_ERROR, s)
      | Some a \<Rightarrow>
          let req = build_request a endpoint options;
              answer = fetch env (remote s) req;
              s' = s\<lparr>remote := snd answer, sent := sent s @ [req],
                     answers := answers s @ [fst answer]\<rparr>
          in (case fst answer of
                Rejected msg \<Rightarrow> (Inl msg, s')
              | Resolved r \<Rightarrow>
                  if \<not> ok r then (Inl (http_error r), s') else (body_json r, s')))"

definition no_options :: RequestInit where
  "no_options = \<lparr>http_method = None, headers = None, body = None\<rparr>"

section \<open>The chat request handler\<close>

text \<open>The replies; \<open>0x274C\<close> is the cross mark and \<open>0x2705\<close> the check mark.\<close>

definition MISSING_FIELDS :: jsstring where
  "MISSING_FIELDS = 0x274C # u16 '' Missing fields: token, url, email.''"

definition AUTHENTICATED :: jsstring where
  "AUTHENTICATED =
     0x2705 # u16 '' **Authenticated!** You can now use `/pages`, `/page`, `/update`, `/create`.''"

definition AUTH_FAILED :: "jsstring \<Rightarrow> jsstring" where
  "AUTH_FAILED msg = 0x274C # u16 '' Auth failed: '' @ msg"

definition INVALID_JSON :: jsstring where
  "INVALID_JSON = 0x274C # u16 '' Invalid JSON for authentication.''"

definition NOT_AUTHENTICATED :: jsstring where
  "NOT_AUTHENTICATED = 0x274C # u16 '' Not authenticated. Run `/auth` first.''"

definition PAGE_USAGE :: jsstring where
  "PAGE_USAGE = 0x274C # u16 '' Usage: `/page <pageId>`''"

definition FETCH_FAILED :: "jsstring \<Rightarrow> jsstring" where
  "FETCH_FAILED msg = 0x274C # u16 '' Failed to fetch page: '' @ msg"

definition UPDATE_USAGE :: jsstring where
  "UPDATE_USAGE = 0x274C # u16 '' Usage: `/update <pageId> <message to append>`''"

definition MISSING_MESSAGE :: jsstring where
  "MISSING_MESSAGE = 0x274C # u16 '' Missing message to append.''"

definition UPDATE_FAILED :: "jsstring \<Rightarrow> jsstring" where
  "UPDATE_FAILED msg = 0x274C # u16 '' Failed to update page: '' @ msg"

definition UNKNOWN_COMMAND :: jsstring where
  "UNKNOWN_COMMAND =
     0x274C # u16 '' Unknown command. Use `/auth`, `/pages`, `/page <id>`, `/update <id> <text>`, or `/create`.''"

text \<open>
  The message of the TypeError that reading \<^verbatim>\<open>confluenceAuth.url\<close> throws when the
  variable is \<^verbatim>\<open>null\<close>.
\<close>

definition NULL_URL_ERROR :: jsstring where
  "NULL_URL_ERROR = u16 ''Cannot read properties of null (reading 'url')''"

definition PREFIX :: jsstring where
  "PREFIX = u16 ''@kb_agent ''"

definition content_endpoint :: "jsstring \<Rightarrow> jsstring" where
  "content_endpoint pageId = u16 ''/content/'' @ pageId @ u16 ''?expand=body.storage,version,space''"

text \<open>The \<^verbatim>\<open>/auth\<close> branch.\<close>

definition handle_auth ::
  "('w, 'b) platform \<Rightarrow> jsstring \<Rightarrow> ('w, 'b) system \<Rightarrow> outcome \<times> ('w, 'b) system"
where
  "handle_auth env rest s =
     (let jsonText = trim (replace_first rest (u16 ''/auth'') [])
      in case JSON_parse env jsonText of
           None \<Rightarrow> (Reply INVALID_JSON, s)
         | Some data \<Rightarrow>
             \<comment> \<open>reading a property of \<^verbatim>\<open>null\<close> throws; the outer \<^verbatim>\<open>catch\<close> takes it\<close>
             if data = JNull then (Reply INVALID_JSON, s)
             else if \<not> truthy (member data (u16 ''token'')) \<or>
                     \<not> truthy (member data (u16 ''url'')) \<or>
                     \<not> truthy (member data (u16 ''email''))
             then (Reply MISSING_FIELDS, s)
             else
               \<comment> \<open>a \<^verbatim>\<open>String\<close> that throws is outside the inner \<^verbatim>\<open>try\<close>: the outer \<^verbatim>\<open>catch\<close> takes it\<close>
               (case String_js (member data (u16 ''url'')) of
                  None \<Rightarrow> (Reply INVALID_JSON, s)
                | Some u \<Rightarrow>
                    let data' = assign data (u16 ''url'') (JStr (strip_trailing_slash u))
                    in (case String_js (member data' (u16 ''token'')) of
                          None \<Rightarrow> (Reply INVALID_JSON, s)
                        | Some t \<Rightarrow>
                            (case String_js (member data' (u16 ''url'')) of
                               None \<Rightarrow> (Reply INVALID_JSON, s)
                             | Some u' \<Rightarrow>
                                 (case String_js (member data' (u16 ''email'')) of
                                    None \<Rightarrow> (Reply INVALID_JSON, s)
                                  | Some e \<Rightarrow>
                                      let auth = \<lparr>token = t, url = u', email = e\<rparr>;
                                          probe = makeConfluenceRequest env (u16 ''/space'')
                                                    no_options s
                                      in (case fst probe of
                                            Inl msg \<Rightarrow> (Reply (AUTH_FAILED msg), snd probe)
                                          | Inr spaces \<Rightarrow>
                                              (Reply AUTHENTICATED,
                                               saveAuth auth (snd probe))))))))"

text \<open>The text that \<^verbatim>\<open>/page\<close> renders; \<open>0xD83D, 0xDCC4\<close> is the page emoji.\<close>

definition page_output ::
  "('w, 'b) platform \<Rightarrow> ConfluenceAuth \<Rightarrow> ConfluencePageContent \<Rightarrow> jsstring"
where
  "page_output env a page =
     u16 ''### '' @ [0xD83D, 0xDCC4] @ u16 '' Page: '' @ title page @ [0x000A] @
     u16 ''- ID: '' @ page_id page @ [0x000A] @
     u16 ''- Space: '' @ space_key page @ [0x000A] @
     u16 ''- Version: '' @ Number_toString env (version_number page) @ [0x000A] @
     u16 ''- URL: '' @ url a @ u16 ''/wiki'' @ links_webui page @ [0x000A, 0x000A] @
     u16 ''**Content:**'' @ [0x000A, 0x000A] @ body_storage_value page"

text \<open>The \<^verbatim>\<open>/page <pageId>\<close> branch.\<close>

definition handle_page ::
  "('w, ConfluencePageContent) platform \<Rightarrow> jsstring \<Rightarrow> ('w, ConfluencePageContent) system \<Rightarrow>
     outcome \<times> ('w, ConfluencePageContent) system"
where
  "handle_page env rest s =
     (let parts = filter (\<lambda>w. w \<noteq> []) (split rest (ch CHR '' ''))
      in if length parts < 2 then (Reply PAGE_USAGE, s)
         else
           let pageId = parts ! 1;
               got = makeConfluenceRequest env (content_endpoint pageId) no_options s
           in (case fst got of
                 Inl msg \<Rightarrow> (Reply (FETCH_FAILED msg), snd got)
               | Inr page \<Rightarrow>
                   (case confluenceAuth (snd got) of
                      None \<Rightarrow> (Reply (FETCH_FAILED NULL_URL_ERROR), snd got)
                    | Some a \<Rightarrow> (Reply (page_output env a page), snd got))))"

definition update_payload :: "jsstring \<Rightarrow> jsstring \<Rightarrow> ConfluencePageContent \<Rightarrow> payload" where
  "update_payload pageId messageToAppend page =
     (let newContent = body_storage_value page @ u16 ''<p>'' @ messageToAppend @ u16 ''</p>''
      in \<lparr>payload_id = pageId,
          payload_type = u16 ''page'',
          payload_title = title page,
          payload_space_key = space_key page,
          payload_body_value = newContent,
          payload_body_representation = u16 ''storage'',
          payload_version_number = number_plus (version_number page) 1\<rparr>)"

definition APPENDED :: "ConfluenceAuth \<Rightarrow> ConfluencePageContent \<Rightarrow> jsstring" where
  "APPENDED a page =
     0x2705 # u16 '' Appended content to ['' @ title page @ u16 ''](''  @ url a @ u16 ''/wiki'' @
     links_webui page @ u16 '')''"

text \<open>The \<^verbatim>\<open>/update <pageId> <text to append>\<close> branch.\<close>

definition handle_update ::
  "('w, ConfluencePageContent) platform \<Rightarrow> jsstring \<Rightarrow> ('w, ConfluencePageContent) system \<Rightarrow>
     outcome \<times> ('w, ConfluencePageContent) system"
where
  "handle_update env rest s =
     (let firstSpace = indexOf rest (u16 '' '')
      in if firstSpace = -1 then (Reply UPDATE_USAGE, s)
         else
           let afterCmd = trim (slice_from rest (nat firstSpace));
               secondSpace = indexOf afterCmd (u16 '' '')
           in if secondSpace = -1 then (Reply MISSING_MESSAGE, s)
              else
                let pageId = trim (slice_between afterCmd 0 (nat secondSpace));
                    messageToAppend = trim (slice_from afterCmd (nat secondSpace));
                    got = makeConfluenceRequest env (content_endpoint pageId) no_options s
                in (case fst got of
                      Inl msg \<Rightarrow> (Reply (UPDATE_FAILED msg), snd got)
                    | Inr page \<Rightarrow>
                        let put = makeConfluenceRequest env (u16 ''/content/'' @ pageId)
                                    \<lparr>http_method = Some (u16 ''PUT''), headers = None,
                                     body = Some (Object (update_payload pageId messageToAppend page))\<rparr>
                                    (snd got)
                        in (case fst put of
                              Inl msg \<Rightarrow> (Reply (UPDATE_FAILED msg), snd put)
                            | Inr updated \<Rightarrow>
                                (case confluenceAuth (snd put) of
                                   None \<Rightarrow> (Reply (UPDATE_FAILED NULL_URL_ERROR), snd put)
                                 | Some a \<Rightarrow> (Reply (APPENDED a page), snd put)))))"

text \<open>\<^verbatim>\<open>prompt.slice(prefix.length).trim()\<close>\<close>

definition rest_of :: "jsstring \<Rightarrow> jsstring" where
  "rest_of normalized = trim (slice_from normalized (length PREFIX))"

text \<open>
  The first statement of the handler: a credential absent from memory is looked up in the
  global state again.
\<close>

definition reload :: "('w, 'b) system \<Rightarrow> ('w, 'b) system" where
  "reload s0 =
     (if confluenceAuth s0 = None
      then (case kbAgentAuth s0 of
              None \<Rightarrow> s0
            | Some saved \<Rightarrow> s0\<lparr>confluenceAuth := Some saved\<rparr>)
      else s0)"

text \<open>
  The handler: \<open>prompt\<close> is \<^verbatim>\<open>request.prompt\<close>. A prompt that is not a command goes to
  the conversational fallback with the original text.
\<close>

definition handler ::
  "('w, ConfluencePageContent) platform \<Rightarrow> jsstring option \<Rightarrow>
     ('w, ConfluencePageContent) system \<Rightarrow> outcome \<times> ('w, ConfluencePageContent) system"
where
  "handler env prompt s0 =
     (let s = reload s0;
          original = (case prompt of None \<Rightarrow> [] | Some p \<Rightarrow> p);
          normalized = normalizePrompt (Some original);
          isCommand = startsWith normalized PREFIX
      in if \<not> isCommand then (chat env original, s)
         else
           let rest = rest_of normalized
           in if startsWith rest (u16 ''/auth'') then handle_auth env rest s
              else if confluenceAuth s = None then (Reply NOT_AUTHENTICATED, s)
              else if startsWith rest (u16 ''/page'') then handle_page env rest s
              else if startsWith rest (u16 ''/update'') then handle_update env rest s
              else (Reply UNKNOWN_COMMAND, s))"

section \<open>A concrete scenario\<close>

text \<open>
  A remote service, a stored credential and a page, for running the handler on concrete
  prompts. The service knows one account, \<open>known_auth\<close>: it answers a request that carries
  the default headers of that account with the page, and any other request with 403.
  Its state counts the requests it has answered.
\<close>

definition known_auth :: ConfluenceAuth where
  "known_auth = \<lparr>token = u16 ''t0'', url = u16 ''http://old'', email = u16 ''o@x''\<rparr>"

definition stored_page :: ConfluencePageContent where
  "stored_page =
     \<lparr>page_id = u16 ''123'', title = u16 ''Notes'', version_number = 3, space_key = u16 ''KB'',
      space_name = None, body_storage_value = u16 ''<p>old</p>'',
      links_webui = u16 ''/spaces/KB/pages/123''\<rparr>"

definition service_fetch :: "nat \<Rightarrow> request \<Rightarrow> ConfluencePageContent fetched \<times> nat" where
  "service_fetch w req =
     (if headers (request_init req) = Some (default_headers known_auth)
      then (Resolved \<lparr>status = 200, statusText = u16 ''OK'', body_json = Inr stored_page\<rparr>, Suc w)
      else (Resolved \<lparr>status = 403, statusText = u16 ''Forbidden'',
                      body_json = Inl (u16 ''Unexpected end of JSON input'')\<rparr>, Suc w))"

text \<open>The one text that \<open>parse_example\<close> parses, and the object it denotes.\<close>

definition example_json_text :: jsstring where
  \<open>example_json_text = u16 ''{"token":"t","url":"http://h/","email":"e@x"}''\<close>

definition parse_example :: "jsstring \<Rightarrow> json option" where
  "parse_example text =
     (if text = example_json_text
      then Some (JObj [(u16 ''token'', JStr (u16 ''t'')), (u16 ''url'', JStr (u16 ''http://h/'')),
                       (u16 ''email'', JStr (u16 ''e@x''))])
      else None)"

text \<open>The one number that \<open>render_example\<close> renders, the version of the stored page.\<close>

definition render_example :: "int \<Rightarrow> jsstring" where
  "render_example n = (if n = 3 then u16 ''3'' else [])"

definition scenario :: "(nat, ConfluencePageContent) platform" where
  "scenario =
     \<lparr>fetch = service_fetch, JSON_parse = parse_example, Number_toString = render_example,
      chat = (\<lambda>original. Streamed [])\<rparr>"

text \<open>A service that refuses every request.\<close>

definition refusing_fetch :: "nat \<Rightarrow> request \<Rightarrow> ConfluencePageContent fetched \<times> nat" where
  "refusing_fetch w req =
     (Resolved \<lparr>status = 403, statusText = u16 ''Forbidden'',
                body_json = Inl (u16 ''Unexpected end of JSON input'')\<rparr>, Suc w)"

definition refusing :: "(nat, ConfluencePageContent) platform" where
  "refusing =
     \<lparr>fetch = refusing_fetch, JSON_parse = parse_example, Number_toString = render_example,
      chat = (\<lambda>original. Streamed [])\<rparr>"

text \<open>A service that serves reads and rejects every write, as after a concurrent edit.\<close>

definition rejecting_writes_fetch ::
  "nat \<Rightarrow> request \<Rightarrow> ConfluencePageContent fetched \<times> nat"
where
  "rejecting_writes_fetch w req =
     (if http_method (request_init req) = Some (u16 ''PUT'')
      then (Resolved \<lparr>status = 409, statusText = u16 ''Conflict'',
                      body_json = Inl (u16 ''Unexpected end of JSON input'')\<rparr>, Suc w)
      else (Resolved \<lparr>status = 200, statusText = u16 ''OK'', body_json = Inr stored_page\<rparr>, Suc w))"

definition rejecting_writes :: "(nat, ConfluencePageContent) platform" where
  "rejecting_writes =
     \<lparr>fetch = rejecting_writes_fetch, JSON_parse = parse_example,
      Number_toString = render_example, chat = (\<lambda>original. Streamed [])\<rparr>"

text \<open>
  A service whose page has reached version \<open>2 ^ 53\<close>, the first integer whose successor is
  not a double.
\<close>

definition aged_page :: ConfluencePageContent where
  "aged_page = stored_page\<lparr>version_number := 9007199254740992\<rparr>"

definition aged_fetch :: "nat \<Rightarrow> request \<Rightarrow> ConfluencePageContent fetched \<times> nat" where
  "aged_fetch w req =
     (Resolved \<lparr>status = 200, statusText = u16 ''OK'', body_json = Inr aged_page\<rparr>, Suc w)"

definition aged :: "(nat, ConfluencePageContent) platform" where
  "aged =
     \<lparr>fetch = aged_fetch, JSON_parse = parse_example, Number_toString = render_example,
      chat = (\<lambda>original. Streamed [])\<rparr>"

definition signed_out :: "(nat, ConfluencePageContent) system" where
  "signed_out =
     \<lparr>confluenceAuth = None, kbAgentAuth = None, remote = 0, sent = [], answers = []\<rparr>"

definition signed_in :: "(nat, ConfluencePageContent) system" where
  "signed_in =
     \<lparr>confluenceAuth = Some known_auth, kbAgentAuth = Some known_auth, remote = 0, sent = [],
      answers = []\<rparr>"

section \<open>Properties of the string functions and of the normaliser\<close>

lemma of_char_lt_256: "(of_char c :: nat) < 256"
proof -
  have "(of_char c :: nat) mod 256 < 256" by simp
  then show ?thesis by (simp only: of_char_mod_256)
qed

lemma unat_ch: "unat (ch c) = of_char c"
proof -
  have "ch c = of_nat (of_char c)" by (simp add: ch_def of_nat_of_char)
  then have "unat (ch c) = (of_char c :: nat) mod 2 ^ 16" by (simp add: unat_of_nat)
  also have "\<dots> = of_char c"
  proof -
    have "(256::nat) < 2 ^ 16" by simp
    with of_char_lt_256 [of c] have "(of_char c :: nat) < 2 ^ 16" by (rule less_trans)
    then show ?thesis by (rule mod_less)
  qed
  finally show ?thesis .
qed

lemma ch_eq_iff [simp]: "ch a = ch b \<longleftrightarrow> a = b"
  by (metis unat_ch of_char_eq_iff)

lemma u16_Nil [simp]: "u16 [] = []"
  by (simp add: u16_def)

lemma u16_Cons [simp]: "u16 (c # cs) = ch c # u16 cs"
  by (simp add: u16_def)

lemma u16_append: "u16 (a @ b) = u16 a @ u16 b"
  by (simp add: u16_def)

subsection \<open>Trimming\<close>

lemma last_dropWhile: "dropWhile P xs \<noteq> [] \<Longrightarrow> last (dropWhile P xs) = last xs"
  by (induction xs) (auto split: if_splits)

lemma trim_fixed:
  assumes "s = [] \<or> (\<not> is_ws (hd s) \<and> \<not> is_ws (last s))"
  shows "trim s = s"
proof (cases s)
  case Nil
  then show ?thesis by (simp add: trim_def trimStart_def trimEnd_def)
next
  case (Cons c r)
  with assms have h: "\<not> is_ws (hd s)" and l: "\<not> is_ws (last s)" by auto
  from h Cons have 1: "dropWhile is_ws s = s" by simp
  from Cons have "rev s \<noteq> []" by simp
  moreover have "hd (rev s) = last s" using \<open>rev s \<noteq> []\<close> by (metis hd_rev rev_is_Nil_conv)
  with l have "\<not> is_ws (hd (rev s))" by simp
  ultimately have 2: "dropWhile is_ws (rev s) = rev s" by (cases "rev s") auto
  show ?thesis by (simp add: trim_def trimStart_def trimEnd_def 1 2)
qed

lemma trim_ends: "trim s = [] \<or> (\<not> is_ws (hd (trim s)) \<and> \<not> is_ws (last (trim s)))"
proof (cases "trim s = []")
  case True
  then show ?thesis by simp
next
  case False
  define a where "a = dropWhile is_ws s"
  define b where "b = dropWhile is_ws (rev a)"
  have t: "trim s = rev b" by (simp add: trim_def trimStart_def trimEnd_def a_def b_def)
  with False have bne: "b \<noteq> []" by simp
  then have "\<not> is_ws (hd b)" unfolding b_def by (rule hd_dropWhile)
  then have l: "\<not> is_ws (last (trim s))" using bne by (simp add: t last_rev)
  from bne have "last b = last (rev a)" unfolding b_def by (rule last_dropWhile)
  moreover from bne have ane: "a \<noteq> []" by (auto simp: b_def)
  ultimately have "hd (trim s) = hd a" using bne by (simp add: t hd_rev last_rev)
  moreover from ane have "\<not> is_ws (hd a)" unfolding a_def by (rule hd_dropWhile)
  ultimately show ?thesis using l by simp
qed

lemma trim_idem: "trim (trim s) = trim s"
  by (rule trim_fixed) (rule trim_ends)

lemma set_trim: "set (trim s) \<subseteq> set s"
proof -
  have "set (trim s) = set (dropWhile is_ws (rev (dropWhile is_ws s)))"
    by (simp add: trim_def trimStart_def trimEnd_def)
  also have "\<dots> \<subseteq> set (rev (dropWhile is_ws s))" by (rule set_dropWhileD [THEN subsetI])
  also have "\<dots> \<subseteq> set s" using set_dropWhileD [of _ is_ws s] by auto
  finally show ?thesis .
qed

lemma trim_Nil [simp]: "trim [] = []"
  by (simp add: trim_def trimStart_def trimEnd_def)

subsection \<open>The link pattern\<close>

lemma linkMatch_pure_link:
  assumes "pure_link s label target"
  shows "linkMatch s = Some label"
proof -
  let ?rb = "ch CHR '']''" and ?rp = "ch CHR '')''"
  from assms have s: "s = ch CHR ''['' # label @ ?rb # ch CHR ''('' # target @ [?rp]"
    and ne: "label \<noteq> []" and nl: "?rb \<notin> set label" and nt: "?rp \<notin> set target"
    by (simp_all add: pure_link_def)
  have tw: "takeWhile (\<lambda>x. x \<noteq> ?rb) (label @ ?rb # ch CHR ''('' # target @ [?rp]) = label"
    using nl by (auto simp: takeWhile_tail)
  have dw: "dropWhile (\<lambda>x. x \<noteq> ?rb) (label @ ?rb # ch CHR ''('' # target @ [?rp])
              = ?rb # ch CHR ''('' # target @ [?rp]"
    using nl by (auto simp: dropWhile_append3)
  have dt: "dropWhile (\<lambda>x. x \<noteq> ?rp) (target @ [?rp]) = [?rp]"
    using nt by (auto simp: dropWhile_append3)
  show ?thesis
    by (simp add: linkMatch_def s tw dw dt ne)
qed

lemma linkMatch_Some:
  assumes "linkMatch s = Some label"
  shows "\<exists>target. pure_link s label target"
proof -
  let ?rb = "ch CHR '']''" and ?rp = "ch CHR '')''"
  from assms obtain r where s: "s = ch CHR ''['' # r"
    by (cases s) (auto simp: linkMatch_def split: if_splits)
  define r1 where "r1 = dropWhile (\<lambda>x. x \<noteq> ?rb) r"
  from assms s have lab: "label = takeWhile (\<lambda>x. x \<noteq> ?rb) r" and ne: "label \<noteq> []"
    by (auto simp: linkMatch_def Let_def split: if_splits list.splits)
  from assms s obtain rb r2 where r1: "r1 = rb # ch CHR ''('' # r2"
    and d: "dropWhile (\<lambda>x. x \<noteq> ?rp) r2 = [?rp]"
    by (auto simp: linkMatch_def Let_def r1_def split: if_splits list.splits)
  have "\<not> (hd r1 \<noteq> ?rb)" unfolding r1_def by (rule hd_dropWhile) (use r1 r1_def in auto)
  with r1 have rb: "rb = ?rb" by simp
  define target where "target = takeWhile (\<lambda>x. x \<noteq> ?rp) r2"
  have r2: "r2 = target @ [?rp]" using takeWhile_dropWhile_id [of "\<lambda>x. x \<noteq> ?rp" r2] d
    by (simp add: target_def)
  have r: "r = label @ r1" by (simp add: lab r1_def)
  have "?rb \<notin> set label" unfolding lab by (auto dest: set_takeWhileD)
  moreover have "?rp \<notin> set target" unfolding target_def by (auto dest: set_takeWhileD)
  ultimately have "pure_link s label target"
    using ne by (simp add: pure_link_def s r r1 rb r2)
  then show ?thesis ..
qed

lemma linkMatch_iff: "linkMatch s = Some label \<longleftrightarrow> (\<exists>target. pure_link s label target)"
  using linkMatch_Some linkMatch_pure_link by blast

lemma linkMatch_bracket: "linkMatch s = Some label \<Longrightarrow> ch CHR '']'' \<in> set s"
  by (auto dest!: linkMatch_Some simp: pure_link_def)

lemma linkMatch_label: "linkMatch s = Some label \<Longrightarrow> ch CHR '']'' \<notin> set label"
  by (auto dest!: linkMatch_Some simp: pure_link_def)

lemma normalizePrompt_idem: "normalizePrompt (Some (normalizePrompt input)) = normalizePrompt input"
proof -
  define raw where "raw = (case input of None \<Rightarrow> [] | Some i \<Rightarrow> i)"
  show ?thesis
  proof (cases "linkMatch (trim raw)")
    case None
    then have "normalizePrompt input = trim raw" by (simp add: normalizePrompt_def raw_def)
    moreover have "normalizePrompt (Some (trim raw)) = trim raw"
      by (simp add: normalizePrompt_def trim_idem None)
    ultimately show ?thesis by simp
  next
    case (Some label)
    then have n: "normalizePrompt input = trim label" by (simp add: normalizePrompt_def raw_def)
    have "ch CHR '']'' \<notin> set (trim label)"
      using linkMatch_label [OF Some] set_trim [of label] by auto
    then have "linkMatch (trim label) = None"
      using linkMatch_bracket [of "trim label"] by (cases "linkMatch (trim label)") auto
    then have "normalizePrompt (Some (trim label)) = trim label"
      by (simp add: normalizePrompt_def trim_idem)
    with n show ?thesis by simp
  qed
qed


lemma normalizePrompt_undefined: "normalizePrompt None = normalizePrompt (Some [])"
  by (simp add: normalizePrompt_def)

lemmas string_eval = ch_def u16_def is_ws_def trim_def trimStart_def trimEnd_def startsWith_def
  linkMatch_def normalizePrompt_def

text \<open>
  C4. The normaliser returns the trimmed input, except when the trimmed input is a single
  markdown link \<^verbatim>\<open>[label](target)\<close> spanning the whole string, where it returns the
  trimmed label; an undefined input is the empty string; and the four examples of the
  specification evaluate as it says.
\<close>

theorem normalizePrompt_contract:
  "(pure_link (trim s) label target \<longrightarrow> normalizePrompt (Some s) = trim label) \<and>
   ((\<forall>l t. \<not> pure_link (trim s) l t) \<longrightarrow> normalizePrompt (Some s) = trim s) \<and>
   normalizePrompt None = normalizePrompt (Some []) \<and>
   normalizePrompt (Some (u16 ''  [Foo Bar](http://x)  '')) = u16 ''Foo Bar'' \<and>
   normalizePrompt (Some (u16 ''plain text'')) = u16 ''plain text'' \<and>
   normalizePrompt (Some []) = [] \<and>
   normalizePrompt (Some (u16 ''[a](b) extra'')) = u16 ''[a](b) extra''"
proof -
  have 1: "pure_link (trim s) label target \<longrightarrow> normalizePrompt (Some s) = trim label"
    by (auto simp: normalizePrompt_def dest: linkMatch_pure_link)
  have 2: "(\<forall>l t. \<not> pure_link (trim s) l t) \<longrightarrow> normalizePrompt (Some s) = trim s"
  proof
    assume "\<forall>l t. \<not> pure_link (trim s) l t"
    then have "linkMatch (trim s) = None"
      using linkMatch_Some [of "trim s"] by (cases "linkMatch (trim s)") auto
    then show "normalizePrompt (Some s) = trim s" by (simp add: normalizePrompt_def)
  qed
  have 3: "normalizePrompt (Some (u16 ''  [Foo Bar](http://x)  '')) = u16 ''Foo Bar''"
    by (simp add: string_eval)
  have 4: "normalizePrompt (Some (u16 ''plain text'')) = u16 ''plain text''"
    by (simp add: string_eval)
  have 5: "normalizePrompt (Some []) = []"
    by (simp add: string_eval)
  have 6: "normalizePrompt (Some (u16 ''[a](b) extra'')) = u16 ''[a](b) extra''"
    by (simp add: string_eval)
  from 1 2 normalizePrompt_undefined 3 4 5 6 show ?thesis by blast
qed

theorem normalizePrompt_contract_witness:
  "pure_link (trim (u16 ''  [Foo Bar ](http://x)  '')) (u16 ''Foo Bar '') (u16 ''http://x'') \<and>
   normalizePrompt (Some (u16 ''  [Foo Bar ](http://x)  '')) = u16 ''Foo Bar'' \<and>
   (\<forall>l t. \<not> pure_link (trim (u16 ''[a](b) extra'')) l t) \<and>
   normalizePrompt (Some (u16 ''[a](b) extra'')) = u16 ''[a](b) extra''"
proof -
  have a: "pure_link (trim (u16 ''  [Foo Bar ](http://x)  '')) (u16 ''Foo Bar '') (u16 ''http://x'')"
    by (simp add: pure_link_def string_eval)
  have "linkMatch (trim (u16 ''[a](b) extra'')) = None"
    by (simp add: string_eval)
  then have b: "\<forall>l t. \<not> pure_link (trim (u16 ''[a](b) extra'')) l t"
    by (auto dest: linkMatch_pure_link)
  have t1: "trim (u16 ''Foo Bar '') = u16 ''Foo Bar''" by (simp add: string_eval)
  have t2: "trim (u16 ''[a](b) extra'') = u16 ''[a](b) extra''" by (simp add: string_eval)
  from a normalizePrompt_contract [of "u16 ''  [Foo Bar ](http://x)  ''" "u16 ''Foo Bar ''" "u16 ''http://x''"]
  have "normalizePrompt (Some (u16 ''  [Foo Bar ](http://x)  '')) = trim (u16 ''Foo Bar '')" by blast
  moreover from b normalizePrompt_contract [of "u16 ''[a](b) extra''"]
  have "normalizePrompt (Some (u16 ''[a](b) extra'')) = trim (u16 ''[a](b) extra'')" by blast
  ultimately show ?thesis using a b t1 t2 by simp
qed

text \<open>
  C10. The normaliser is idempotent: normalising its own output changes nothing.
\<close>

theorem normalizePrompt_idempotent:
  "normalizePrompt (Some (normalizePrompt input)) = normalizePrompt input"
  by (rule normalizePrompt_idem)

section \<open>Properties of the handler\<close>

lemmas model_eval = string_eval slice_from_def slice_between_def indexOf_def strip_trailing_slash_def
  digit_def show_nat.simps Buffer_base64_def b64_symbol_def String_js_def
  activate_def saveAuth_def spread_def default_headers_def merged_init_def stringify_body_def
  build_request_def NOT_AUTHENTICATED_ERROR_def http_error_def makeConfluenceRequest_def
  no_options_def ok_def refusing_fetch_def refusing_def rejecting_writes_fetch_def
  rejecting_writes_def render_example_def
  MISSING_FIELDS_def AUTHENTICATED_def AUTH_FAILED_def INVALID_JSON_def NOT_AUTHENTICATED_def
  PAGE_USAGE_def FETCH_FAILED_def UPDATE_USAGE_def MISSING_MESSAGE_def UPDATE_FAILED_def
  UNKNOWN_COMMAND_def NULL_URL_ERROR_def PREFIX_def content_endpoint_def handle_auth_def
  page_output_def handle_page_def update_payload_def APPENDED_def handle_update_def rest_of_def
  reload_def handler_def known_auth_def stored_page_def service_fetch_def example_json_text_def
  parse_example_def scenario_def signed_out_def signed_in_def Let_def

subsection \<open>The handler on a command\<close>

lemma normalizePrompt_original:
  "normalizePrompt (Some (case prompt of None \<Rightarrow> [] | Some p \<Rightarrow> p)) = normalizePrompt prompt"
  by (cases prompt) (simp_all add: normalizePrompt_def)

lemma handler_command:
  assumes "startsWith (normalizePrompt prompt) PREFIX"
  shows "handler env prompt s0 =
           (let s = reload s0; rest = rest_of (normalizePrompt prompt)
            in if startsWith rest (u16 ''/auth'') then handle_auth env rest s
               else if confluenceAuth s = None then (Reply NOT_AUTHENTICATED, s)
               else if startsWith rest (u16 ''/page'') then handle_page env rest s
               else if startsWith rest (u16 ''/update'') then handle_update env rest s
               else (Reply UNKNOWN_COMMAND, s))"
  using assms by (simp add: handler_def normalizePrompt_original Let_def)

lemma reload_signed_out:
  "confluenceAuth s = None \<Longrightarrow> kbAgentAuth s = None \<Longrightarrow> reload s = s"
  by (simp add: reload_def)

lemma reload_stored:
  "confluenceAuth s \<noteq> None \<or> kbAgentAuth s \<noteq> None \<Longrightarrow> confluenceAuth (reload s) \<noteq> None"
  by (auto simp: reload_def split: option.splits)

lemma reload_sent [simp]: "sent (reload s) = sent s"
  by (simp add: reload_def split: option.splits)

text \<open>
  C6. A command other than \<^verbatim>\<open>/auth\<close>, invoked while no credential is stored in memory or
  in the global state, is answered with the authentication-required message, and no
  request is issued: the state, with its list of requests, is unchanged.
\<close>

theorem command_without_credential:
  assumes "confluenceAuth s = None" and "kbAgentAuth s = None"
    and "startsWith (normalizePrompt prompt) PREFIX"
    and "\<not> startsWith (rest_of (normalizePrompt prompt)) (u16 ''/auth'')"
  shows "handler env prompt s = (Reply NOT_AUTHENTICATED, s) \<and>
         sent (snd (handler env prompt s)) = sent s"
  using assms by (simp add: handler_command reload_signed_out)

theorem command_without_credential_witness:
  "confluenceAuth signed_out = None \<and> kbAgentAuth signed_out = None \<and>
   startsWith (normalizePrompt (Some (u16 ''@kb_agent /page 123''))) PREFIX \<and>
   \<not> startsWith (rest_of (normalizePrompt (Some (u16 ''@kb_agent /page 123'')))) (u16 ''/auth'') \<and>
   handler scenario (Some (u16 ''@kb_agent /page 123'')) signed_out = (Reply NOT_AUTHENTICATED, signed_out) \<and>
   sent (snd (handler scenario (Some (u16 ''@kb_agent /page 123'')) signed_out)) = []"
proof -
  have 1: "confluenceAuth signed_out = None" and 2: "kbAgentAuth signed_out = None"
    by (simp_all add: signed_out_def)
  have 3: "startsWith (normalizePrompt (Some (u16 ''@kb_agent /page 123''))) PREFIX"
    by (simp add: string_eval PREFIX_def)
  have 4: "\<not> startsWith (rest_of (normalizePrompt (Some (u16 ''@kb_agent /page 123'')))) (u16 ''/auth'')"
    by (simp add: string_eval PREFIX_def rest_of_def slice_from_def)
  have 5: "sent signed_out = []" by (simp add: signed_out_def)
  from command_without_credential [OF 1 2 3 4, of scenario] 1 2 3 4 5 show ?thesis by simp
qed

text \<open>
  C2, as the code has it. A command whose suffix starts with none of \<^verbatim>\<open>/auth\<close>,
  \<^verbatim>\<open>/page\<close>, \<^verbatim>\<open>/update\<close> is answered with the unknown-command message when a
  credential is stored (in memory or in the global state), and with the
  authentication-required message when none is; no request is issued either way.
\<close>

theorem unknown_command_reply:
  assumes "startsWith (normalizePrompt prompt) PREFIX"
    and "\<not> startsWith (rest_of (normalizePrompt prompt)) (u16 ''/auth'')"
    and "\<not> startsWith (rest_of (normalizePrompt prompt)) (u16 ''/page'')"
    and "\<not> startsWith (rest_of (normalizePrompt prompt)) (u16 ''/update'')"
  shows "((confluenceAuth s \<noteq> None \<or> kbAgentAuth s \<noteq> None) \<longrightarrow>
            fst (handler env prompt s) = Reply UNKNOWN_COMMAND) \<and>
         (confluenceAuth s = None \<and> kbAgentAuth s = None \<longrightarrow>
            fst (handler env prompt s) = Reply NOT_AUTHENTICATED) \<and>
         sent (snd (handler env prompt s)) = sent s"
  using assms reload_stored [of s]
  by (auto simp: handler_command reload_signed_out Let_def)

theorem unknown_command_reply_witness:
  "startsWith (normalizePrompt (Some (u16 ''@kb_agent /foo''))) PREFIX \<and>
   \<not> startsWith (rest_of (normalizePrompt (Some (u16 ''@kb_agent /foo'')))) (u16 ''/auth'') \<and>
   \<not> startsWith (rest_of (normalizePrompt (Some (u16 ''@kb_agent /foo'')))) (u16 ''/page'') \<and>
   \<not> startsWith (rest_of (normalizePrompt (Some (u16 ''@kb_agent /foo'')))) (u16 ''/update'') \<and>
   confluenceAuth signed_in \<noteq> None \<and>
   fst (handler scenario (Some (u16 ''@kb_agent /foo'')) signed_in) = Reply UNKNOWN_COMMAND \<and>
   confluenceAuth signed_out = None \<and> kbAgentAuth signed_out = None \<and>
   fst (handler scenario (Some (u16 ''@kb_agent /foo'')) signed_out) = Reply NOT_AUTHENTICATED"
proof -
  let ?p = "Some (u16 ''@kb_agent /foo'')"
  have 1: "startsWith (normalizePrompt ?p) PREFIX"
    by (simp add: string_eval PREFIX_def)
  have 2: "\<not> startsWith (rest_of (normalizePrompt ?p)) (u16 ''/auth'')"
    and 3: "\<not> startsWith (rest_of (normalizePrompt ?p)) (u16 ''/page'')"
    and 4: "\<not> startsWith (rest_of (normalizePrompt ?p)) (u16 ''/update'')"
    by (simp_all add: string_eval PREFIX_def rest_of_def slice_from_def)
  have 5: "confluenceAuth signed_in \<noteq> None" by (simp add: signed_in_def)
  have 6: "confluenceAuth signed_out = None" and 7: "kbAgentAuth signed_out = None"
    by (simp_all add: signed_out_def)
  from unknown_command_reply [OF 1 2 3 4, of signed_in scenario] 5
  have a: "fst (handler scenario ?p signed_in) = Reply UNKNOWN_COMMAND" by blast
  from unknown_command_reply [OF 1 2 3 4, of signed_out scenario] 6 7
  have b: "fst (handler scenario ?p signed_out) = Reply NOT_AUTHENTICATED" by blast
  from 1 2 3 4 5 6 7 a b show ?thesis by blast
qed

text \<open>
  C2 as the specification states it does not hold: without a credential the reply to
  \<^verbatim>\<open>/foo\<close> is not the unknown-command message that the same prompt gets with one.
\<close>

theorem unknown_command_counterexample:
  "fst (handler scenario (Some (u16 ''@kb_agent /foo'')) signed_out) = Reply NOT_AUTHENTICATED \<and>
   fst (handler scenario (Some (u16 ''@kb_agent /foo'')) signed_in) = Reply UNKNOWN_COMMAND \<and>
   NOT_AUTHENTICATED \<noteq> UNKNOWN_COMMAND"
  by (simp add: model_eval)

text \<open>
  C3 at \<^verbatim>\<open>/pages\<close>, with a credential stored: the suffix starts with \<^verbatim>\<open>/page\<close>, so the
  page branch answers it, with its usage message or, given an argument, by fetching that
  page; \<^verbatim>\<open>/create\<close> gets the unknown-command message.
\<close>

theorem pages_reaches_page_branch:
  "fst (handler scenario (Some (u16 ''@kb_agent /pages'')) signed_in) = Reply PAGE_USAGE \<and>
   PAGE_USAGE \<noteq> UNKNOWN_COMMAND \<and>
   map request_url (sent (snd (handler scenario (Some (u16 ''@kb_agent /pages 123'')) signed_in))) =
     [u16 ''http://old/wiki/rest/api/content/123?expand=body.storage,version,space''] \<and>
   fst (handler scenario (Some (u16 ''@kb_agent /create'')) signed_in) = Reply UNKNOWN_COMMAND"
  by (simp add: model_eval)

subsection \<open>The remote client\<close>

lemma request_unauthenticated:
  "confluenceAuth s = None \<Longrightarrow>
   makeConfluenceRequest env endpoint options s = (Inl NOT_AUTHENTICATED_ERROR, s)"
  by (simp add: makeConfluenceRequest_def)

lemma request_state:
  "confluenceAuth s = Some a \<Longrightarrow>
   snd (makeConfluenceRequest env endpoint options s) =
     s\<lparr>remote := snd (fetch env (remote s) (build_request a endpoint options)),
       sent := sent s @ [build_request a endpoint options],
       answers := answers s @ [fst (fetch env (remote s) (build_request a endpoint options))]\<rparr>"
  by (simp add: makeConfluenceRequest_def Let_def split: fetched.splits)

lemma request_result:
  "confluenceAuth s = Some a \<Longrightarrow>
   fst (makeConfluenceRequest env endpoint options s) =
     (case fst (fetch env (remote s) (build_request a endpoint options)) of
        Rejected msg \<Rightarrow> Inl msg
      | Resolved r \<Rightarrow>
          if \<not> ok r then Inl (http_error r) else body_json r)"
  by (simp add: makeConfluenceRequest_def Let_def split: fetched.splits)

lemma request_keeps_credential:
  "confluenceAuth (snd (makeConfluenceRequest env endpoint options s)) = confluenceAuth s \<and>
   kbAgentAuth (snd (makeConfluenceRequest env endpoint options s)) = kbAgentAuth s"
  by (cases "confluenceAuth s") (simp_all add: request_unauthenticated request_state)

lemma reload_remote [simp]: "remote (reload s) = remote s"
  by (simp add: reload_def split: option.splits)

text \<open>
  C7 at a request with a caller-supplied header: the spread of \<open>options\<close> writes the
  caller's \<^verbatim>\<open>headers\<close> object over the merged one, so the request carries the caller's
  headers alone and the default \<^verbatim>\<open>Authorization\<close> header is gone.
\<close>

theorem caller_headers_replace_defaults:
  "headers (request_init (build_request known_auth (u16 ''/space'')
      \<lparr>http_method = None, headers = Some [(u16 ''X-Trace'', u16 ''1'')], body = None\<rparr>)) =
     Some [(u16 ''X-Trace'', u16 ''1'')] \<and>
   map_of (default_headers known_auth) (u16 ''Authorization'') = Some (u16 ''Basic b0B4OnQw'') \<and>
   map_of [(u16 ''X-Trace'', u16 ''1'')] (u16 ''Authorization'') = None"
  by (simp add: model_eval)

subsection \<open>Numbers\<close>

lemma bit_count_power: "bit_count (2 ^ n) = Suc n"
proof (induction n)
  case 0
  show ?case by (simp add: bit_count.simps)
next
  case (Suc n)
  have "bit_count (2 ^ Suc n) = Suc (bit_count (2 ^ n))"
    by (subst bit_count.simps) simp
  with Suc show ?case by simp
qed

lemma round_to_double_small: "\<bar>n\<bar> < 2 ^ 53 \<Longrightarrow> round_to_double n = n"
  by (simp add: round_to_double_def Let_def nat_less_iff)

lemma bit_count_2_53: "bit_count 9007199254740992 = 54"
  using bit_count_power [of 53] by simp

lemma round_to_double_2_53: "round_to_double 9007199254740992 = 9007199254740992"
  by (simp add: round_to_double_def Let_def bit_count_2_53)

lemma round_to_double_2_53_1: "round_to_double 9007199254740993 = 9007199254740992"
proof -
  have "bit_count 9007199254740993 = Suc (bit_count 4503599627370496)"
    by (subst bit_count.simps) simp
  also have "bit_count 4503599627370496 = 53"
    using bit_count_power [of 52] by simp
  finally have "bit_count 9007199254740993 = 54" by simp
  then show ?thesis
    by (simp add: round_to_double_def Let_def)
qed

lemma number_plus_one_exact:
  assumes "- (2 ^ 53) \<le> v" and "v < 2 ^ 53"
  shows "number_plus v 1 = v + 1"
proof (cases "v + 1 = 2 ^ 53")
  case True
  then show ?thesis by (simp add: number_plus_def round_to_double_2_53)
next
  case False
  with assms have "\<bar>v + 1\<bar> < 2 ^ 53" by simp
  then show ?thesis by (simp add: number_plus_def round_to_double_small)
qed

text \<open>
  The two requests of an \<^verbatim>\<open>/update\<close> whose read is answered with \<open>page\<close>: the read, and a
  write whose version is the number \<^verbatim>\<open>page.version.number + 1\<close>.
\<close>

lemma update_requests:
  assumes "startsWith (normalizePrompt prompt) PREFIX"
    and "rest = rest_of (normalizePrompt prompt)"
    and "\<not> startsWith rest (u16 ''/auth'')" and "\<not> startsWith rest (u16 ''/page'')"
    and "startsWith rest (u16 ''/update'')"
    and "confluenceAuth (reload s) = Some a"
    and "indexOf rest (u16 '' '') \<noteq> -1"
    and "afterCmd = trim (slice_from rest (nat (indexOf rest (u16 '' ''))))"
    and "indexOf afterCmd (u16 '' '') \<noteq> -1"
    and "pageId = trim (slice_between afterCmd 0 (nat (indexOf afterCmd (u16 '' ''))))"
    and "messageToAppend = trim (slice_from afterCmd (nat (indexOf afterCmd (u16 '' ''))))"
    and "fst (fetch env (remote s) (build_request a (content_endpoint pageId) no_options)) = Resolved r"
    and "ok r" and "body_json r = Inr page"
  shows "sent (snd (handler env prompt s)) =
           sent s @
           [build_request a (content_endpoint pageId) no_options,
            \<lparr>request_url = url a @ u16 ''/wiki/rest/api/content/'' @ pageId,
             request_init =
               \<lparr>http_method = Some (u16 ''PUT''),
                headers = Some (default_headers a),
                body = Some (Stringified
                  \<lparr>payload_id = pageId,
                   payload_type = u16 ''page'',
                   payload_title = title page,
                   payload_space_key = space_key page,
                   payload_body_value = body_storage_value page @ u16 ''<p>'' @ messageToAppend @ u16 ''</p>'',
                   payload_body_representation = u16 ''storage'',
                   payload_version_number = number_plus (version_number page) 1\<rparr>)\<rparr>\<rparr>]"
proof -
  let ?get = "makeConfluenceRequest env (content_endpoint pageId) no_options (reload s)"
  let ?opts = "\<lparr>http_method = Some (u16 ''PUT''), headers = None,
                body = Some (Object (update_payload pageId messageToAppend page))\<rparr>"
  let ?put = "makeConfluenceRequest env (u16 ''/content/'' @ pageId) ?opts (snd ?get)"
  have g: "fst ?get = Inr page"
    using assms(6,12,13,14) by (simp add: request_result)
  have gs: "sent (snd ?get) = sent s @ [build_request a (content_endpoint pageId) no_options]"
    using assms(6) by (simp add: request_state)
  have gc: "confluenceAuth (snd ?get) = Some a"
    using assms(6) by (simp add: request_keeps_credential)
  have ps: "sent (snd ?put) = sent (snd ?get) @ [build_request a (u16 ''/content/'' @ pageId) ?opts]"
    using gc by (simp add: request_state)
  have h: "handler env prompt s = handle_update env rest (reload s)"
    using assms(1-6) by (simp add: handler_command Let_def)
  have "sent (snd (handle_update env rest (reload s))) = sent (snd ?put)"
    using assms(7-11) g
    by (simp add: handle_update_def Let_def split: sum.splits option.splits)
  with h ps gs show ?thesis
    by (simp add: build_request_def merged_init_def stringify_body_def spread_def
        update_payload_def Let_def)
qed

text \<open>
  C5, as the code has it. An \<^verbatim>\<open>/update\<close> whose arguments parse to \<open>pageId\<close> and
  \<open>messageToAppend\<close> and whose read is answered with \<open>page\<close>, at a version \<open>v\<close> with
  \<open>- 2 ^ 53 \<le> v < 2 ^ 53\<close>, issues exactly two requests, the read and then the write, and
  the write carries the fetched version plus one, the fetched body followed by the message
  in a paragraph, and the fetched title and space key. Every successful \<^verbatim>\<open>/update\<close> of a
  page at such a version is such a turn.
\<close>

theorem update_sends_incremented_version:
  assumes "startsWith (normalizePrompt prompt) PREFIX"
    and "rest = rest_of (normalizePrompt prompt)"
    and "\<not> startsWith rest (u16 ''/auth'')" and "\<not> startsWith rest (u16 ''/page'')"
    and "startsWith rest (u16 ''/update'')"
    and "confluenceAuth (reload s) = Some a"
    and "indexOf rest (u16 '' '') \<noteq> -1"
    and "afterCmd = trim (slice_from rest (nat (indexOf rest (u16 '' ''))))"
    and "indexOf afterCmd (u16 '' '') \<noteq> -1"
    and "pageId = trim (slice_between afterCmd 0 (nat (indexOf afterCmd (u16 '' ''))))"
    and "messageToAppend = trim (slice_from afterCmd (nat (indexOf afterCmd (u16 '' ''))))"
    and "fst (fetch env (remote s) (build_request a (content_endpoint pageId) no_options)) = Resolved r"
    and "ok r" and "body_json r = Inr page"
    and "- (2 ^ 53) \<le> version_number page" and "version_number page < 2 ^ 53"
  shows "sent (snd (handler env prompt s)) =
           sent s @
           [build_request a (content_endpoint pageId) no_options,
            \<lparr>request_url = url a @ u16 ''/wiki/rest/api/content/'' @ pageId,
             request_init =
               \<lparr>http_method = Some (u16 ''PUT''),
                headers = Some (default_headers a),
                body = Some (Stringified
                  \<lparr>payload_id = pageId,
                   payload_type = u16 ''page'',
                   payload_title = title page,
                   payload_space_key = space_key page,
                   payload_body_value = body_storage_value page @ u16 ''<p>'' @ messageToAppend @ u16 ''</p>'',
                   payload_body_representation = u16 ''storage'',
                   payload_version_number = version_number page + 1\<rparr>)\<rparr>\<rparr>]"
  using update_requests [OF assms(1-14)] number_plus_one_exact [OF assms(15,16)] by simp


theorem update_sends_incremented_version_witness:
  "startsWith (normalizePrompt (Some (u16 ''@kb_agent /update 123 hello world''))) PREFIX \<and>
   rest_of (normalizePrompt (Some (u16 ''@kb_agent /update 123 hello world''))) = u16 ''/update 123 hello world'' \<and>
   confluenceAuth (reload signed_in) = Some known_auth \<and>
   fst (fetch scenario (remote signed_in)
          (build_request known_auth (content_endpoint (u16 ''123'')) no_options)) =
     Resolved \<lparr>status = 200, statusText = u16 ''OK'', body_json = Inr stored_page\<rparr> \<and>
   version_number stored_page = 3 \<and> body_storage_value stored_page = u16 ''<p>old</p>'' \<and>
   sent (snd (handler scenario (Some (u16 ''@kb_agent /update 123 hello world'')) signed_in)) =
     [build_request known_auth (content_endpoint (u16 ''123'')) no_options,
      \<lparr>request_url = u16 ''http://old/wiki/rest/api/content/123'',
       request_init =
         \<lparr>http_method = Some (u16 ''PUT''),
          headers = Some (default_headers known_auth),
          body = Some (Stringified
            \<lparr>payload_id = u16 ''123'',
             payload_type = u16 ''page'',
             payload_title = u16 ''Notes'',
             payload_space_key = u16 ''KB'',
             payload_body_value = u16 ''<p>old</p><p>hello world</p>'',
             payload_body_representation = u16 ''storage'',
             payload_version_number = 4\<rparr>)\<rparr>\<rparr>]"
proof -
  let ?p = "Some (u16 ''@kb_agent /update 123 hello world'')"
  let ?rest = "u16 ''/update 123 hello world''"
  let ?after = "u16 ''123 hello world''"
  let ?r = "\<lparr>status = 200, statusText = u16 ''OK'', body_json = Inr stored_page\<rparr>"
  have 1: "startsWith (normalizePrompt ?p) PREFIX" by (simp add: string_eval PREFIX_def)
  have 2: "?rest = rest_of (normalizePrompt ?p)"
    by (simp add: string_eval PREFIX_def rest_of_def slice_from_def)
  have 3: "\<not> startsWith ?rest (u16 ''/auth'')" and 4: "\<not> startsWith ?rest (u16 ''/page'')"
    and 5: "startsWith ?rest (u16 ''/update'')"
    by (simp_all add: string_eval)
  have 6: "confluenceAuth (reload signed_in) = Some known_auth"
    by (simp add: reload_def signed_in_def)
  have i1: "indexOf ?rest (u16 '' '') = 7" by (simp add: indexOf_def string_eval)
  then have 7: "indexOf ?rest (u16 '' '') \<noteq> -1" by simp
  have 8: "?after = trim (slice_from ?rest (nat (indexOf ?rest (u16 '' ''))))"
    unfolding i1 by (simp add: slice_from_def string_eval)
  have i2: "indexOf ?after (u16 '' '') = 3" by (simp add: indexOf_def string_eval)
  then have 9: "indexOf ?after (u16 '' '') \<noteq> -1" by simp
  have 10: "u16 ''123'' = trim (slice_between ?after 0 (nat (indexOf ?after (u16 '' ''))))"
    unfolding i2 by (simp add: slice_between_def string_eval)
  have 11: "u16 ''hello world'' = trim (slice_from ?after (nat (indexOf ?after (u16 '' ''))))"
    unfolding i2 by (simp add: slice_from_def string_eval)
  have 12: "fst (fetch scenario (remote signed_in)
              (build_request known_auth (content_endpoint (u16 ''123'')) no_options)) = Resolved ?r"
    by (simp add: scenario_def service_fetch_def build_request_def merged_init_def
        stringify_body_def no_options_def spread_def Let_def)
  have 13: "ok ?r" by (simp add: ok_def)
  have 14: "body_json ?r = Inr stored_page" by simp
  have s: "sent signed_in = []" by (simp add: signed_in_def)
  have v: "version_number stored_page = 3" "body_storage_value stored_page = u16 ''<p>old</p>''"
    "title stored_page = u16 ''Notes''" "space_key stored_page = u16 ''KB''"
    "url known_auth = u16 ''http://old''"
    by (simp_all add: stored_page_def known_auth_def)
  have 15: "- (2 ^ 53) \<le> version_number stored_page" and 16: "version_number stored_page < 2 ^ 53"
    by (simp_all add: stored_page_def)
  from update_sends_incremented_version [OF 1 2 3 4 5 6 7 8 9 10 11 12 13 14 15 16]
  have "sent (snd (handler scenario ?p signed_in)) =
     [build_request known_auth (content_endpoint (u16 ''123'')) no_options,
      \<lparr>request_url = u16 ''http://old/wiki/rest/api/content/123'',
       request_init =
         \<lparr>http_method = Some (u16 ''PUT''),
          headers = Some (default_headers known_auth),
          body = Some (Stringified
            \<lparr>payload_id = u16 ''123'',
             payload_type = u16 ''page'',
             payload_title = u16 ''Notes'',
             payload_space_key = u16 ''KB'',
             payload_body_value = u16 ''<p>old</p><p>hello world</p>'',
             payload_body_representation = u16 ''storage'',
             payload_version_number = 4\<rparr>)\<rparr>\<rparr>]"
    by (simp add: s v)
  with 1 2 6 12 v show ?thesis by simp
qed

text \<open>
  C5 as the specification states it does not hold for every version: a page fetched at
  version \<open>2 ^ 53\<close> is written back at version \<open>2 ^ 53\<close>, since the sum is not a double.
\<close>

theorem update_version_counterexample:
  "version_number aged_page = 9007199254740992 \<and>
   fst (fetch aged (remote signed_in)
          (build_request known_auth (content_endpoint (u16 ''123'')) no_options)) =
     Resolved \<lparr>status = 200, statusText = u16 ''OK'', body_json = Inr aged_page\<rparr> \<and>
   sent (snd (handler aged (Some (u16 ''@kb_agent /update 123 hello world'')) signed_in)) =
     [build_request known_auth (content_endpoint (u16 ''123'')) no_options,
      \<lparr>request_url = u16 ''http://old/wiki/rest/api/content/123'',
       request_init =
         \<lparr>http_method = Some (u16 ''PUT''),
          headers = Some (default_headers known_auth),
          body = Some (Stringified
            \<lparr>payload_id = u16 ''123'',
             payload_type = u16 ''page'',
             payload_title = u16 ''Notes'',
             payload_space_key = u16 ''KB'',
             payload_body_value = u16 ''<p>old</p><p>hello world</p>'',
             payload_body_representation = u16 ''storage'',
             payload_version_number = 9007199254740992\<rparr>)\<rparr>\<rparr>] \<and>
   (9007199254740992 :: int) \<noteq> 9007199254740992 + 1"
proof -
  have p: "number_plus 9007199254740992 1 = 9007199254740992"
    by (simp add: number_plus_def round_to_double_2_53_1)
  show ?thesis
    by (simp add: model_eval aged_def aged_fetch_def aged_page_def p)
qed

subsection \<open>Authentication\<close>

lemma member_truthy_object:
  "truthy (member data k) \<Longrightarrow> \<exists>kvs. data = JObj kvs"
  by (cases data) simp_all

lemma member_assign_other:
  "k \<noteq> k' \<Longrightarrow> member (assign (JObj kvs) k' v) k = member (JObj kvs) k"
  by (simp add: update_conv')

lemma member_assign_same:
  "member (assign (JObj kvs) k v) k = Some v"
  by (simp add: update_conv')

lemma u16_inj [simp]: "u16 a = u16 b \<longleftrightarrow> a = b"
  by (induction a arbitrary: b) (case_tac b; simp)+

lemma strip_trailing_slash_snoc: "strip_trailing_slash (u @ u16 ''/'') = u"
  by (simp add: strip_trailing_slash_def)

text \<open>
  The \<^verbatim>\<open>/auth\<close> branch on a complete payload, one whose three values are truthy and
  convert to strings: the probe decides.
\<close>

lemma handle_auth_complete:
  assumes "JSON_parse env (trim (replace_first rest (u16 ''/auth'') [])) = Some data"
    and "truthy (member data (u16 ''token''))" and "truthy (member data (u16 ''url''))"
    and "truthy (member data (u16 ''email''))"
    and "String_js (member data (u16 ''token'')) = Some t"
    and "String_js (member data (u16 ''url'')) = Some u"
    and "String_js (member data (u16 ''email'')) = Some e"
  shows "handle_auth env rest s =
           (case fst (makeConfluenceRequest env (u16 ''/space'') no_options s) of
              Inl msg \<Rightarrow>
                (Reply (AUTH_FAILED msg), snd (makeConfluenceRequest env (u16 ''/space'') no_options s))
            | Inr spaces \<Rightarrow>
                (Reply AUTHENTICATED,
                 saveAuth \<lparr>token = t, url = strip_trailing_slash u, email = e\<rparr>
                   (snd (makeConfluenceRequest env (u16 ''/space'') no_options s))))"
proof -
  from assms(2) obtain kvs where d: "data = JObj kvs" using member_truthy_object by blast
  show ?thesis
    using assms unfolding d
    by (simp add: handle_auth_def Let_def update_conv' String_js_def split: sum.splits)
qed

lemma handle_auth_success:
  assumes "JSON_parse env (trim (replace_first rest (u16 ''/auth'') [])) = Some data"
    and "fst (handle_auth env rest s) = Reply AUTHENTICATED"
  shows "truthy (member data (u16 ''token'')) \<and> truthy (member data (u16 ''url'')) \<and>
         truthy (member data (u16 ''email'')) \<and>
         (\<exists>t u e. String_js (member data (u16 ''token'')) = Some t \<and>
                  String_js (member data (u16 ''url'')) = Some u \<and>
                  String_js (member data (u16 ''email'')) = Some e)"
proof -
  have ne: "INVALID_JSON \<noteq> AUTHENTICATED" "MISSING_FIELDS \<noteq> AUTHENTICATED"
    by (simp_all add: AUTHENTICATED_def INVALID_JSON_def MISSING_FIELDS_def)
  have t: "truthy (member data (u16 ''token'')) \<and> truthy (member data (u16 ''url'')) \<and>
           truthy (member data (u16 ''email''))"
    using assms ne by (auto simp: handle_auth_def Let_def split: if_splits)
  then obtain kvs where d: "data = JObj kvs" using member_truthy_object by blast
  from assms ne t have "\<exists>t u e. String_js (member data (u16 ''token'')) = Some t \<and>
                  String_js (member data (u16 ''url'')) = Some u \<and>
                  String_js (member data (u16 ''email'')) = Some e"
    unfolding d
    by (auto simp: handle_auth_def Let_def update_conv' String_js_def
        split: if_splits option.splits)
  with t show ?thesis by simp
qed

text \<open>
  What the probe of \<^verbatim>\<open>/auth\<close> is, for every complete payload: a request built from the
  credential already in memory, whatever the payload holds; and none at all without one.
\<close>

lemma auth_probe_request:
  assumes "startsWith (normalizePrompt prompt) PREFIX"
    and "rest = rest_of (normalizePrompt prompt)"
    and "startsWith rest (u16 ''/auth'')"
    and "JSON_parse env (trim (replace_first rest (u16 ''/auth'') [])) = Some data"
    and "truthy (member data (u16 ''token''))" and "truthy (member data (u16 ''url''))"
    and "truthy (member data (u16 ''email''))"
    and "String_js (member data (u16 ''token'')) = Some t"
    and "String_js (member data (u16 ''url'')) = Some u"
    and "String_js (member data (u16 ''email'')) = Some e"
  shows "confluenceAuth (reload s) = Some a \<Longrightarrow>
           sent (snd (handler env prompt s)) = sent s @ [build_request a (u16 ''/space'') no_options]"
    and "confluenceAuth (reload s) = None \<Longrightarrow>
           handler env prompt s = (Reply (AUTH_FAILED NOT_AUTHENTICATED_ERROR), reload s)"
proof -
  have h: "handler env prompt s = handle_auth env rest (reload s)"
    using assms(1-3) by (simp add: handler_command Let_def)
  note c = handle_auth_complete [OF assms(4-10), of "reload s"]
  show "sent (snd (handler env prompt s)) = sent s @ [build_request a (u16 ''/space'') no_options]"
    if "confluenceAuth (reload s) = Some a"
    using that h c by (simp add: request_state saveAuth_def split: sum.splits)
  show "handler env prompt s = (Reply (AUTH_FAILED NOT_AUTHENTICATED_ERROR), reload s)"
    if "confluenceAuth (reload s) = None"
    using that h c by (simp add: request_unauthenticated)
qed

lemma auth_failure_keeps_credential:
  assumes "startsWith (normalizePrompt prompt) PREFIX"
    and "startsWith (rest_of (normalizePrompt prompt)) (u16 ''/auth'')"
    and "fst (handler env prompt s) \<noteq> Reply AUTHENTICATED"
  shows "kbAgentAuth (snd (handler env prompt s)) = kbAgentAuth s"
    and "confluenceAuth (snd (handler env prompt s)) = confluenceAuth (reload s)"
proof -
  let ?rest = "rest_of (normalizePrompt prompt)"
  have h: "handler env prompt s = handle_auth env ?rest (reload s)"
    using assms(1,2) by (simp add: handler_command Let_def)
  have k: "kbAgentAuth (reload s) = kbAgentAuth s"
    by (simp add: reload_def split: option.splits)
  from assms(3) h have n: "fst (handle_auth env ?rest (reload s)) \<noteq> Reply AUTHENTICATED" by simp
  then have "kbAgentAuth (snd (handle_auth env ?rest (reload s))) = kbAgentAuth (reload s) \<and>
             confluenceAuth (snd (handle_auth env ?rest (reload s))) = confluenceAuth (reload s)"
    by (auto simp: handle_auth_def Let_def request_keeps_credential
        split: option.splits if_splits sum.splits)
  with h k show "kbAgentAuth (snd (handler env prompt s)) = kbAgentAuth s"
    and "confluenceAuth (snd (handler env prompt s)) = confluenceAuth (reload s)"
    by simp_all
qed

text \<open>
  C1 at two turns of \<^verbatim>\<open>/auth\<close> with a complete payload. With no credential stored, the
  probe throws before any request is sent and the candidate is refused unseen. With a
  credential stored, the probe is sent to the stored credential's address with the stored
  credential's headers, and its success persists the candidate, which the service would have
  refused.
\<close>

theorem auth_probe_uses_stored_credential:
  "handler scenario (Some (PREFIX @ u16 ''/auth '' @ example_json_text)) signed_out =
     (Reply (AUTH_FAILED NOT_AUTHENTICATED_ERROR), signed_out) \<and>
   sent signed_out = [] \<and>
   handler scenario (Some (PREFIX @ u16 ''/auth '' @ example_json_text)) signed_in =
     (Reply AUTHENTICATED,
      \<lparr>confluenceAuth = Some \<lparr>token = u16 ''t'', url = u16 ''http://h'', email = u16 ''e@x''\<rparr>,
       kbAgentAuth = Some \<lparr>token = u16 ''t'', url = u16 ''http://h'', email = u16 ''e@x''\<rparr>,
       remote = 1,
       sent = [\<lparr>request_url = u16 ''http://old/wiki/rest/api/space'',
                request_init = \<lparr>http_method = None, headers = Some (default_headers known_auth),
                                body = None\<rparr>\<rparr>],
       answers = [Resolved \<lparr>status = 200, statusText = u16 ''OK'',
                             body_json = Inr stored_page\<rparr>]\<rparr>) \<and>
   fst (service_fetch 0 (build_request \<lparr>token = u16 ''t'', url = u16 ''http://h'', email = u16 ''e@x''\<rparr>
          (u16 ''/space'') no_options)) =
     Resolved \<lparr>status = 403, statusText = u16 ''Forbidden'',
               body_json = Inl (u16 ''Unexpected end of JSON input'')\<rparr>"
  by (simp add: model_eval)

text \<open>
  C9. When \<^verbatim>\<open>/auth\<close> succeeds on the parsed payload \<open>data\<close>, the credential stored in
  the global state and in memory holds the three values coerced to strings, the url with
  its trailing slash removed; all three values were truthy.
\<close>

theorem auth_persists_stripped_url:
  assumes "startsWith (normalizePrompt prompt) PREFIX"
    and "rest = rest_of (normalizePrompt prompt)"
    and "startsWith rest (u16 ''/auth'')"
    and "JSON_parse env (trim (replace_first rest (u16 ''/auth'') [])) = Some data"
    and "fst (handler env prompt s) = Reply AUTHENTICATED"
  shows "(\<exists>t u e. String_js (member data (u16 ''token'')) = Some t \<and>
            String_js (member data (u16 ''url'')) = Some u \<and>
            String_js (member data (u16 ''email'')) = Some e \<and>
            kbAgentAuth (snd (handler env prompt s)) =
              Some \<lparr>token = t, url = strip_trailing_slash u, email = e\<rparr>) \<and>
         confluenceAuth (snd (handler env prompt s)) = kbAgentAuth (snd (handler env prompt s)) \<and>
         truthy (member data (u16 ''token'')) \<and> truthy (member data (u16 ''url'')) \<and>
         truthy (member data (u16 ''email'')) \<and>
         strip_trailing_slash (x @ u16 ''/'') = x"
proof -
  have h: "handler env prompt s = handle_auth env rest (reload s)"
    using assms(1-3) by (simp add: handler_command Let_def)
  from assms(5) h have r: "fst (handle_auth env rest (reload s)) = Reply AUTHENTICATED" by simp
  from handle_auth_success [OF assms(4) r]
  obtain t u e where tr: "truthy (member data (u16 ''token''))" "truthy (member data (u16 ''url''))"
      "truthy (member data (u16 ''email''))"
    and co: "String_js (member data (u16 ''token'')) = Some t"
      "String_js (member data (u16 ''url'')) = Some u"
      "String_js (member data (u16 ''email'')) = Some e"
    by blast
  have ne: "\<And>msg. AUTH_FAILED msg \<noteq> AUTHENTICATED"
    by (simp add: AUTHENTICATED_def AUTH_FAILED_def)
  from handle_auth_complete [OF assms(4) tr co, of "reload s"] r ne
  have "snd (handle_auth env rest (reload s)) =
          saveAuth \<lparr>token = t, url = strip_trailing_slash u, email = e\<rparr>
            (snd (makeConfluenceRequest env (u16 ''/space'') no_options (reload s)))"
    by (auto split: sum.splits)
  with h tr co show ?thesis
    by (simp add: saveAuth_def strip_trailing_slash_def)
qed

theorem auth_persists_stripped_url_witness:
  "startsWith (normalizePrompt (Some (PREFIX @ u16 ''/auth '' @ example_json_text))) PREFIX \<and>
   JSON_parse scenario example_json_text =
     Some (JObj [(u16 ''token'', JStr (u16 ''t'')), (u16 ''url'', JStr (u16 ''http://h/'')),
                 (u16 ''email'', JStr (u16 ''e@x''))]) \<and>
   fst (handler scenario (Some (PREFIX @ u16 ''/auth '' @ example_json_text)) signed_in) =
     Reply AUTHENTICATED \<and>
   kbAgentAuth (snd (handler scenario (Some (PREFIX @ u16 ''/auth '' @ example_json_text)) signed_in)) =
     Some \<lparr>token = u16 ''t'', url = u16 ''http://h'', email = u16 ''e@x''\<rparr>"
proof -
  let ?p = "Some (PREFIX @ u16 ''/auth '' @ example_json_text)"
  let ?rest = "u16 ''/auth '' @ example_json_text"
  let ?data = "JObj [(u16 ''token'', JStr (u16 ''t'')), (u16 ''url'', JStr (u16 ''http://h/'')),
                     (u16 ''email'', JStr (u16 ''e@x''))]"
  have 1: "startsWith (normalizePrompt ?p) PREFIX"
    by (simp add: string_eval PREFIX_def example_json_text_def)
  have 2: "?rest = rest_of (normalizePrompt ?p)"
    by (simp add: string_eval PREFIX_def rest_of_def slice_from_def example_json_text_def)
  have 3: "startsWith ?rest (u16 ''/auth'')" by (simp add: string_eval)
  have 4: "JSON_parse scenario (trim (replace_first ?rest (u16 ''/auth'') [])) = Some ?data"
    by (simp add: string_eval scenario_def parse_example_def example_json_text_def)
  have 5: "fst (handler scenario ?p signed_in) = Reply AUTHENTICATED"
    by (simp add: model_eval)
  have 6: "JSON_parse scenario example_json_text = Some ?data"
    by (simp add: scenario_def parse_example_def)
  from auth_persists_stripped_url [OF 1 2 3 4 5]
  have "kbAgentAuth (snd (handler scenario ?p signed_in)) =
     Some \<lparr>token = u16 ''t'', url = u16 ''http://h'', email = u16 ''e@x''\<rparr>"
    by (auto simp: String_js_def strip_trailing_slash_def)
  with 1 5 6 show ?thesis by simp
qed

subsection \<open>Failures of the remote call\<close>

lemma handle_auth_replies: "\<exists>msg. fst (handle_auth env rest s) = Reply msg"
  by (simp add: handle_auth_def Let_def split: option.splits sum.splits)

lemma handle_page_replies: "\<exists>msg. fst (handle_page env rest s) = Reply msg"
  by (simp add: handle_page_def Let_def split: option.splits sum.splits)

lemma handle_update_replies: "\<exists>msg. fst (handle_update env rest s) = Reply msg"
  by (simp add: handle_update_def Let_def split: option.splits sum.splits)

lemma command_replies:
  "startsWith (normalizePrompt prompt) PREFIX \<Longrightarrow> \<exists>msg. fst (handler env prompt s) = Reply msg"
  by (simp add: handler_command Let_def handle_auth_replies handle_page_replies
      handle_update_replies)

lemma reload_answers [simp]: "answers (reload s) = answers s"
  by (simp add: reload_def split: option.splits)

lemma request_answers_grow:
  "\<exists>ys. answers (snd (makeConfluenceRequest env endpoint options s)) = answers s @ ys"
  by (cases "confluenceAuth s") (simp_all add: request_unauthenticated request_state)

lemma request_any_answer:
  assumes "answers (snd (makeConfluenceRequest env endpoint options s)) = answers s @ new"
    and "Resolved r \<in> set new" and "\<not> ok r"
  shows "fst (makeConfluenceRequest env endpoint options s) = Inl (http_error r)"
proof (cases "confluenceAuth s")
  case None
  with assms(1,2) show ?thesis by (simp add: request_unauthenticated)
next
  case (Some a)
  with assms(1,2) have "fst (fetch env (remote s) (build_request a endpoint options)) = Resolved r"
    by (auto simp: request_state)
  with Some assms(3) show ?thesis by (simp add: request_result)
qed

lemma handle_auth_any_answer:
  assumes "answers (snd (handle_auth env rest s)) = answers s @ new"
    and "Resolved r \<in> set new" and "\<not> ok r"
  shows "fst (handle_auth env rest s) = Reply (AUTH_FAILED (http_error r))"
proof -
  let ?probe = "makeConfluenceRequest env (u16 ''/space'') no_options s"
  from assms(1,2) have a: "answers (snd ?probe) = answers s @ new"
    by (auto simp: handle_auth_def Let_def saveAuth_def split: option.splits if_splits sum.splits)
  from request_any_answer [OF a assms(2,3)] have f: "fst ?probe = Inl (http_error r)" .
  from assms(1,2) f show ?thesis
    by (auto simp: handle_auth_def Let_def split: option.splits if_splits)
qed

lemma handle_page_any_answer:
  assumes "answers (snd (handle_page env rest s)) = answers s @ new"
    and "Resolved r \<in> set new" and "\<not> ok r"
  shows "fst (handle_page env rest s) = Reply (FETCH_FAILED (http_error r))"
proof -
  define pageId where "pageId = filter (\<lambda>w. w \<noteq> []) (split rest (ch CHR '' '')) ! 1"
  let ?got = "makeConfluenceRequest env (content_endpoint pageId) no_options s"
  from assms(1,2) have a: "answers (snd ?got) = answers s @ new"
    by (auto simp: handle_page_def Let_def pageId_def split: option.splits if_splits sum.splits)
  from request_any_answer [OF a assms(2,3)] have f: "fst ?got = Inl (http_error r)" .
  from assms(1,2) f show ?thesis
    by (auto simp: handle_page_def Let_def pageId_def split: if_splits)
qed

lemma handle_update_any_answer:
  assumes "answers (snd (handle_update env rest s)) = answers s @ new"
    and "Resolved r \<in> set new" and "\<not> ok r"
  shows "fst (handle_update env rest s) = Reply (UPDATE_FAILED (http_error r))"
proof -
  define afterCmd where "afterCmd = trim (slice_from rest (nat (indexOf rest (u16 '' ''))))"
  define pageId where "pageId = trim (slice_between afterCmd 0 (nat (indexOf afterCmd (u16 '' ''))))"
  define message where "message = trim (slice_from afterCmd (nat (indexOf afterCmd (u16 '' ''))))"
  let ?got = "makeConfluenceRequest env (content_endpoint pageId) no_options s"
  have args: "indexOf rest (u16 '' '') \<noteq> -1" "indexOf afterCmd (u16 '' '') \<noteq> -1"
    using assms(1,2) by (auto simp: handle_update_def Let_def afterCmd_def split: if_splits)
  show ?thesis
  proof (cases "fst ?got")
    case (Inl msg)
    with args have e: "handle_update env rest s = (Reply (UPDATE_FAILED msg), snd ?got)"
      by (simp add: handle_update_def Let_def afterCmd_def pageId_def)
    with assms(1) have "answers (snd ?got) = answers s @ new" by simp
    from request_any_answer [OF this assms(2,3)] Inl e show ?thesis by simp
  next
    case (Inr page)
    let ?opts = "\<lparr>http_method = Some (u16 ''PUT''), headers = None,
                  body = Some (Object (update_payload pageId message page))\<rparr>"
    let ?put = "makeConfluenceRequest env (u16 ''/content/'' @ pageId) ?opts (snd ?got)"
    from Inr args have st: "snd (handle_update env rest s) = snd ?put"
      and out: "\<And>msg. fst ?put = Inl msg \<Longrightarrow> fst (handle_update env rest s) = Reply (UPDATE_FAILED msg)"
      by (simp_all add: handle_update_def Let_def afterCmd_def pageId_def message_def
          split: sum.splits option.splits)
    from request_answers_grow obtain ys where ys: "answers (snd ?got) = answers s @ ys" by blast
    from request_answers_grow obtain zs where zs: "answers (snd ?put) = answers (snd ?got) @ zs"
      by blast
    from ys zs st assms(1) have n: "new = ys @ zs" by simp
    have "Resolved r \<notin> set ys"
    proof
      assume "Resolved r \<in> set ys"
      from request_any_answer [OF ys this assms(3)] Inr show False by simp
    qed
    with n assms(2) have "Resolved r \<in> set zs" by simp
    from request_any_answer [OF zs this assms(3)] out show ?thesis by simp
  qed
qed

lemma command_any_answer:
  assumes "startsWith (normalizePrompt prompt) PREFIX"
    and "answers (snd (handler env prompt s)) = answers s @ new"
    and "Resolved r \<in> set new" and "\<not> ok r"
  shows "fst (handler env prompt s) = Reply (AUTH_FAILED (http_error r)) \<or>
         fst (handler env prompt s) = Reply (FETCH_FAILED (http_error r)) \<or>
         fst (handler env prompt s) = Reply (UPDATE_FAILED (http_error r))"
proof -
  let ?rest = "rest_of (normalizePrompt prompt)"
  note h = handler_command [OF assms(1), of env s]
  consider (auth) "handler env prompt s = handle_auth env ?rest (reload s)"
    | (page) "handler env prompt s = handle_page env ?rest (reload s)"
    | (update) "handler env prompt s = handle_update env ?rest (reload s)"
    | (none) "snd (handler env prompt s) = reload s"
    using h by (auto simp: Let_def split: if_splits)
  then show ?thesis
  proof cases
    case auth
    with assms(2) have "answers (snd (handle_auth env ?rest (reload s))) =
      answers (reload s) @ new" by simp
    from handle_auth_any_answer [OF this assms(3,4)] auth show ?thesis by simp
  next
    case page
    with assms(2) have "answers (snd (handle_page env ?rest (reload s))) =
      answers (reload s) @ new" by simp
    from handle_page_any_answer [OF this assms(3,4)] page show ?thesis by simp
  next
    case update
    with assms(2) have "answers (snd (handle_update env ?rest (reload s))) =
      answers (reload s) @ new" by simp
    from handle_update_any_answer [OF this assms(3,4)] update show ?thesis by simp
  next
    case none
    with assms(2,3) show ?thesis by simp
  qed
qed

text \<open>
  Each branch at the remote call it makes: when the service answers that call with a
  response \<open>r\<close> without success, the reply is the failure message of the branch.
\<close>

lemma auth_refused:
  assumes "startsWith (normalizePrompt prompt) PREFIX"
    and "rest = rest_of (normalizePrompt prompt)"
    and "startsWith rest (u16 ''/auth'')"
    and "JSON_parse env (trim (replace_first rest (u16 ''/auth'') [])) = Some data"
    and "truthy (member data (u16 ''token''))" and "truthy (member data (u16 ''url''))"
    and "truthy (member data (u16 ''email''))"
    and "String_js (member data (u16 ''token'')) = Some t"
    and "String_js (member data (u16 ''url'')) = Some u"
    and "String_js (member data (u16 ''email'')) = Some e"
    and "confluenceAuth (reload s) = Some a"
    and "fst (fetch env (remote s) (build_request a (u16 ''/space'') no_options)) = Resolved r"
    and "\<not> ok r"
  shows "fst (handler env prompt s) = Reply (AUTH_FAILED (http_error r))"
proof -
  have h: "handler env prompt s = handle_auth env rest (reload s)"
    using assms(1-3) by (simp add: handler_command Let_def)
  have "fst (makeConfluenceRequest env (u16 ''/space'') no_options (reload s)) = Inl (http_error r)"
    using assms(11-13) by (simp add: request_result)
  with h handle_auth_complete [OF assms(4-10), of "reload s"] show ?thesis by simp
qed

lemma page_refused:
  assumes "startsWith (normalizePrompt prompt) PREFIX"
    and "rest = rest_of (normalizePrompt prompt)"
    and "\<not> startsWith rest (u16 ''/auth'')" and "startsWith rest (u16 ''/page'')"
    and "2 \<le> length (filter (\<lambda>w. w \<noteq> []) (split rest (ch CHR '' '')))"
    and "pageId = filter (\<lambda>w. w \<noteq> []) (split rest (ch CHR '' '')) ! 1"
    and "confluenceAuth (reload s) = Some a"
    and "fst (fetch env (remote s) (build_request a (content_endpoint pageId) no_options)) = Resolved r"
    and "\<not> ok r"
  shows "fst (handler env prompt s) = Reply (FETCH_FAILED (http_error r))"
proof -
  have h: "handler env prompt s = handle_page env rest (reload s)"
    using assms(1-4,7) by (simp add: handler_command Let_def)
  have "fst (makeConfluenceRequest env (content_endpoint pageId) no_options (reload s)) =
          Inl (http_error r)"
    using assms(7-9) by (simp add: request_result)
  with h assms(5,6) show ?thesis by (simp add: handle_page_def Let_def)
qed

lemma update_read_refused:
  assumes "startsWith (normalizePrompt prompt) PREFIX"
    and "rest = rest_of (normalizePrompt prompt)"
    and "\<not> startsWith rest (u16 ''/auth'')" and "\<not> startsWith rest (u16 ''/page'')"
    and "startsWith rest (u16 ''/update'')"
    and "confluenceAuth (reload s) = Some a"
    and "indexOf rest (u16 '' '') \<noteq> -1"
    and "afterCmd = trim (slice_from rest (nat (indexOf rest (u16 '' ''))))"
    and "indexOf afterCmd (u16 '' '') \<noteq> -1"
    and "pageId = trim (slice_between afterCmd 0 (nat (indexOf afterCmd (u16 '' ''))))"
    and "fst (fetch env (remote s) (build_request a (content_endpoint pageId) no_options)) = Resolved r"
    and "\<not> ok r"
  shows "fst (handler env prompt s) = Reply (UPDATE_FAILED (http_error r))"
proof -
  have h: "handler env prompt s = handle_update env rest (reload s)"
    using assms(1-6) by (simp add: handler_command Let_def)
  have "fst (makeConfluenceRequest env (content_endpoint pageId) no_options (reload s)) =
          Inl (http_error r)"
    using assms(6,11,12) by (simp add: request_result)
  with h assms(7-10) show ?thesis by (simp add: handle_update_def Let_def)
qed

lemma update_write_refused:
  assumes "startsWith (normalizePrompt prompt) PREFIX"
    and "rest = rest_of (normalizePrompt prompt)"
    and "\<not> startsWith rest (u16 ''/auth'')" and "\<not> startsWith rest (u16 ''/page'')"
    and "startsWith rest (u16 ''/update'')"
    and "confluenceAuth (reload s) = Some a"
    and "indexOf rest (u16 '' '') \<noteq> -1"
    and "afterCmd = trim (slice_from rest (nat (indexOf rest (u16 '' ''))))"
    and "indexOf afterCmd (u16 '' '') \<noteq> -1"
    and "pageId = trim (slice_between afterCmd 0 (nat (indexOf afterCmd (u16 '' ''))))"
    and "messageToAppend = trim (slice_from afterCmd (nat (indexOf afterCmd (u16 '' ''))))"
    and "fetch env (remote s) (build_request a (content_endpoint pageId) no_options) =
           (Resolved good, w)"
    and "ok good" and "body_json good = Inr page"
    and "fst (fetch env w (build_request a (u16 ''/content/'' @ pageId)
           \<lparr>http_method = Some (u16 ''PUT''), headers = None,
            body = Some (Object (update_payload pageId messageToAppend page))\<rparr>)) = Resolved r"
    and "\<not> ok r"
  shows "fst (handler env prompt s) = Reply (UPDATE_FAILED (http_error r))"
proof -
  let ?get = "makeConfluenceRequest env (content_endpoint pageId) no_options (reload s)"
  let ?opts = "\<lparr>http_method = Some (u16 ''PUT''), headers = None,
                body = Some (Object (update_payload pageId messageToAppend page))\<rparr>"
  let ?put = "makeConfluenceRequest env (u16 ''/content/'' @ pageId) ?opts (snd ?get)"
  have h: "handler env prompt s = handle_update env rest (reload s)"
    using assms(1-6) by (simp add: handler_command Let_def)
  have g: "fst ?get = Inr page"
    using assms(6,12,13,14) by (simp add: request_result)
  have gc: "confluenceAuth (snd ?get) = Some a" and gw: "remote (snd ?get) = w"
    using assms(6,12) by (simp_all add: request_state)
  have "fst ?put = Inl (http_error r)"
    using gc gw assms(15,16) by (simp add: request_result)
  with h g assms(7-11) show ?thesis by (simp add: handle_update_def Let_def)
qed

text \<open>
  C8. A response whose status is not a success makes the client fail with the status and
  the status text, whatever the body; a success returns the parsed body. A command always
  ends in a reply, never in a fault. When any answer the service gave during the turn was a
  response \<open>r\<close> without success, the reply is a failure message around the error of \<open>r\<close>.
  And each branch, at each remote call it makes (the probe of \<^verbatim>\<open>/auth\<close>, the read of
  \<^verbatim>\<open>/page\<close>, the read and the write of \<^verbatim>\<open>/update\<close>), answers such a response to that call
  with its own failure message.
\<close>

theorem remote_failure_is_a_reply:
  "(confluenceAuth s = Some a \<and>
    fst (fetch env (remote s) (build_request a endpoint options)) = Resolved r \<and> \<not> ok r \<longrightarrow>
      fst (makeConfluenceRequest env endpoint options s) =
        Inl (u16 ''HTTP '' @ show_nat (status r) @ u16 '': '' @ statusText r)) \<and>
   (confluenceAuth s = Some a \<and>
    fst (fetch env (remote s) (build_request a endpoint options)) = Resolved r \<and> ok r \<longrightarrow>
      fst (makeConfluenceRequest env endpoint options s) = body_json r) \<and>
   (startsWith (normalizePrompt prompt) PREFIX \<longrightarrow>
      (\<exists>msg. fst (handler env prompt s) = Reply msg)) \<and>
   (startsWith (normalizePrompt prompt) PREFIX \<and>
    answers (snd (handler env prompt s)) = answers s @ new \<and> Resolved r \<in> set new \<and>
    \<not> ok r \<longrightarrow>
      fst (handler env prompt s) = Reply (AUTH_FAILED (http_error r)) \<or>
      fst (handler env prompt s) = Reply (FETCH_FAILED (http_error r)) \<or>
      fst (handler env prompt s) = Reply (UPDATE_FAILED (http_error r))) \<and>
   (startsWith (normalizePrompt prompt) PREFIX \<and> rest = rest_of (normalizePrompt prompt) \<and>
    startsWith rest (u16 ''/auth'') \<and>
    JSON_parse env (trim (replace_first rest (u16 ''/auth'') [])) = Some data \<and>
    truthy (member data (u16 ''token'')) \<and> truthy (member data (u16 ''url'')) \<and>
    truthy (member data (u16 ''email'')) \<and>
    String_js (member data (u16 ''token'')) = Some t \<and>
    String_js (member data (u16 ''url'')) = Some u \<and>
    String_js (member data (u16 ''email'')) = Some e \<and>
    confluenceAuth (reload s) = Some a \<and>
    fst (fetch env (remote s) (build_request a (u16 ''/space'') no_options)) = Resolved r \<and>
    \<not> ok r \<longrightarrow>
      fst (handler env prompt s) = Reply (AUTH_FAILED (http_error r))) \<and>
   (startsWith (normalizePrompt prompt) PREFIX \<and> rest = rest_of (normalizePrompt prompt) \<and>
    \<not> startsWith rest (u16 ''/auth'') \<and> startsWith rest (u16 ''/page'') \<and>
    2 \<le> length (filter (\<lambda>w. w \<noteq> []) (split rest (ch CHR '' ''))) \<and>
    pageId = filter (\<lambda>w. w \<noteq> []) (split rest (ch CHR '' '')) ! 1 \<and>
    confluenceAuth (reload s) = Some a \<and>
    fst (fetch env (remote s) (build_request a (content_endpoint pageId) no_options)) = Resolved r \<and>
    \<not> ok r \<longrightarrow>
      fst (handler env prompt s) = Reply (FETCH_FAILED (http_error r))) \<and>
   (startsWith (normalizePrompt prompt) PREFIX \<and> rest = rest_of (normalizePrompt prompt) \<and>
    \<not> startsWith rest (u16 ''/auth'') \<and> \<not> startsWith rest (u16 ''/page'') \<and>
    startsWith rest (u16 ''/update'') \<and> confluenceAuth (reload s) = Some a \<and>
    indexOf rest (u16 '' '') \<noteq> -1 \<and>
    afterCmd = trim (slice_from rest (nat (indexOf rest (u16 '' '')))) \<and>
    indexOf afterCmd (u16 '' '') \<noteq> -1 \<and>
    pageId = trim (slice_between afterCmd 0 (nat (indexOf afterCmd (u16 '' '')))) \<and>
    fst (fetch env (remote s) (build_request a (content_endpoint pageId) no_options)) = Resolved r \<and>
    \<not> ok r \<longrightarrow>
      fst (handler env prompt s) = Reply (UPDATE_FAILED (http_error r))) \<and>
   (startsWith (normalizePrompt prompt) PREFIX \<and> rest = rest_of (normalizePrompt prompt) \<and>
    \<not> startsWith rest (u16 ''/auth'') \<and> \<not> startsWith rest (u16 ''/page'') \<and>
    startsWith rest (u16 ''/update'') \<and> confluenceAuth (reload s) = Some a \<and>
    indexOf rest (u16 '' '') \<noteq> -1 \<and>
    afterCmd = trim (slice_from rest (nat (indexOf rest (u16 '' '')))) \<and>
    indexOf afterCmd (u16 '' '') \<noteq> -1 \<and>
    pageId = trim (slice_between afterCmd 0 (nat (indexOf afterCmd (u16 '' '')))) \<and>
    messageToAppend = trim (slice_from afterCmd (nat (indexOf afterCmd (u16 '' '')))) \<and>
    fetch env (remote s) (build_request a (content_endpoint pageId) no_options) =
      (Resolved good, w) \<and>
    ok good \<and> body_json good = Inr page \<and>
    fst (fetch env w (build_request a (u16 ''/content/'' @ pageId)
           \<lparr>http_method = Some (u16 ''PUT''), headers = None,
            body = Some (Object (update_payload pageId messageToAppend page))\<rparr>)) = Resolved r \<and>
    \<not> ok r \<longrightarrow>
      fst (handler env prompt s) = Reply (UPDATE_FAILED (http_error r)))"
proof -
  have c1: "confluenceAuth s = Some a \<and>
    fst (fetch env (remote s) (build_request a endpoint options)) = Resolved r \<and> \<not> ok r \<longrightarrow>
      fst (makeConfluenceRequest env endpoint options s) =
        Inl (u16 ''HTTP '' @ show_nat (status r) @ u16 '': '' @ statusText r)"
    by (auto simp: request_result http_error_def)
  have c2: "confluenceAuth s = Some a \<and>
    fst (fetch env (remote s) (build_request a endpoint options)) = Resolved r \<and> ok r \<longrightarrow>
      fst (makeConfluenceRequest env endpoint options s) = body_json r"
    by (auto simp: request_result)
  note c3 = command_replies [of prompt env s]
  note c4 = command_any_answer [of prompt env s new r]
  note c5 = auth_refused [of prompt rest env data t u e s a r]
  note c6 = page_refused [of prompt rest pageId s a env r]
  note c7 = update_read_refused [of prompt rest s a afterCmd pageId env r]
  note c8 = update_write_refused [of prompt rest s a afterCmd pageId messageToAppend env good w page r]
  show ?thesis
    apply (intro conjI impI)
           apply (use c1 in blast)
          apply (use c2 in blast)
         apply (use c3 in blast)
        apply (use c4 in blast)
       apply (use c5 in blast)
      apply (use c6 in blast)
     apply (use c7 in blast)
    apply (use c8 in blast)
    done
qed

theorem remote_failure_is_a_reply_witness:
  "confluenceAuth signed_in = Some known_auth \<and>
   fst (fetch refusing (remote signed_in) (build_request known_auth (u16 ''/space'') no_options)) =
     Resolved \<lparr>status = 403, statusText = u16 ''Forbidden'',
               body_json = Inl (u16 ''Unexpected end of JSON input'')\<rparr> \<and>
   fst (makeConfluenceRequest refusing (u16 ''/space'') no_options signed_in) =
     Inl (u16 ''HTTP 403: Forbidden'') \<and>
   fst (fetch scenario (remote signed_in) (build_request known_auth (u16 ''/space'') no_options)) =
     Resolved \<lparr>status = 200, statusText = u16 ''OK'', body_json = Inr stored_page\<rparr> \<and>
   fst (makeConfluenceRequest scenario (u16 ''/space'') no_options signed_in) = Inr stored_page \<and>
   (\<exists>msg. fst (handler refusing (Some (u16 ''@kb_agent /page 123'')) signed_in) = Reply msg) \<and>
   fst (handler refusing (Some (PREFIX @ u16 ''/auth '' @ example_json_text)) signed_in) =
     Reply (0x274C # u16 '' Auth failed: HTTP 403: Forbidden'') \<and>
   fst (handler refusing (Some (u16 ''@kb_agent /page 123'')) signed_in) =
     Reply (0x274C # u16 '' Failed to fetch page: HTTP 403: Forbidden'') \<and>
   fst (handler refusing (Some (u16 ''@kb_agent /update 123 hello world'')) signed_in) =
     Reply (0x274C # u16 '' Failed to update page: HTTP 403: Forbidden'') \<and>
   answers (snd (handler rejecting_writes (Some (u16 ''@kb_agent /update 123 hello world'')) signed_in)) =
     [Resolved \<lparr>status = 200, statusText = u16 ''OK'', body_json = Inr stored_page\<rparr>,
      Resolved \<lparr>status = 409, statusText = u16 ''Conflict'',
                body_json = Inl (u16 ''Unexpected end of JSON input'')\<rparr>] \<and>
   fst (handler rejecting_writes (Some (u16 ''@kb_agent /update 123 hello world'')) signed_in) =
     Reply (0x274C # u16 '' Failed to update page: HTTP 409: Conflict'')"
proof -
  let ?pa = "Some (PREFIX @ u16 ''/auth '' @ example_json_text)"
  let ?pp = "Some (u16 ''@kb_agent /page 123'')"
  let ?pu = "Some (u16 ''@kb_agent /update 123 hello world'')"
  let ?ra = "u16 ''/auth '' @ example_json_text"
  let ?rp = "u16 ''/page 123''"
  let ?ru = "u16 ''/update 123 hello world''"
  let ?after = "u16 ''123 hello world''"
  let ?pid = "u16 ''123''"
  let ?text = "u16 ''hello world''"
  let ?data = "JObj [(u16 ''token'', JStr (u16 ''t'')), (u16 ''url'', JStr (u16 ''http://h/'')),
                     (u16 ''email'', JStr (u16 ''e@x''))]"
  let ?bad = "\<lparr>status = 403, statusText = u16 ''Forbidden'',
               body_json = Inl (u16 ''Unexpected end of JSON input'') :: jsstring + ConfluencePageContent\<rparr>"
  let ?conflict = "\<lparr>status = 409, statusText = u16 ''Conflict'',
               body_json = Inl (u16 ''Unexpected end of JSON input'') :: jsstring + ConfluencePageContent\<rparr>"
  let ?good = "\<lparr>status = 200, statusText = u16 ''OK'', body_json = Inr stored_page\<rparr>"
  let ?space = "build_request known_auth (u16 ''/space'') no_options"
  let ?getreq = "build_request known_auth (content_endpoint ?pid) no_options"
  let ?putreq = "build_request known_auth (u16 ''/content/'' @ ?pid)
           \<lparr>http_method = Some (u16 ''PUT''), headers = None,
            body = Some (Object (update_payload ?pid ?text stored_page))\<rparr>"
  note main = remote_failure_is_a_reply
  have cred: "confluenceAuth signed_in = Some known_auth" "confluenceAuth (reload signed_in) = Some known_auth"
    by (simp_all add: signed_in_def reload_def)
  have world: "remote signed_in = 0" "answers signed_in = []" by (simp_all add: signed_in_def)
  have nok: "\<not> ok ?bad" "\<not> ok ?conflict" and isok: "ok ?good" by (simp_all add: ok_def)
  have refuses: "fst (fetch refusing w req) = Resolved ?bad" for w req
    by (simp add: refusing_def refusing_fetch_def)
  have serves: "fst (fetch scenario (remote signed_in) ?space) = Resolved ?good"
    by (simp add: scenario_def service_fetch_def build_request_def merged_init_def
        stringify_body_def no_options_def spread_def Let_def)
  have cmd: "startsWith (normalizePrompt ?pa) PREFIX" "startsWith (normalizePrompt ?pp) PREFIX"
    "startsWith (normalizePrompt ?pu) PREFIX"
    by (simp_all add: string_eval PREFIX_def example_json_text_def)
  have rest: "?ra = rest_of (normalizePrompt ?pa)" "?rp = rest_of (normalizePrompt ?pp)"
    "?ru = rest_of (normalizePrompt ?pu)"
    by (simp_all add: string_eval PREFIX_def rest_of_def slice_from_def example_json_text_def)
  have branch: "startsWith ?ra (u16 ''/auth'')"
    "\<not> startsWith ?rp (u16 ''/auth'')" "startsWith ?rp (u16 ''/page'')"
    "\<not> startsWith ?ru (u16 ''/auth'')" "\<not> startsWith ?ru (u16 ''/page'')"
    "startsWith ?ru (u16 ''/update'')"
    by (simp_all add: string_eval)
  have parsed: "JSON_parse refusing (trim (replace_first ?ra (u16 ''/auth'') [])) = Some ?data"
    by (simp add: string_eval refusing_def parse_example_def example_json_text_def)
  have complete: "truthy (member ?data (u16 ''token''))" "truthy (member ?data (u16 ''url''))"
    "truthy (member ?data (u16 ''email''))"
    "String_js (member ?data (u16 ''token'')) = Some (u16 ''t'')"
    "String_js (member ?data (u16 ''url'')) = Some (u16 ''http://h/'')"
    "String_js (member ?data (u16 ''email'')) = Some (u16 ''e@x'')"
    by (simp_all add: String_js_def)
  have parts: "2 \<le> length (filter (\<lambda>w. w \<noteq> []) (split ?rp (ch CHR '' '')))"
    "?pid = filter (\<lambda>w. w \<noteq> []) (split ?rp (ch CHR '' '')) ! 1"
    by (simp_all add: string_eval)
  have i1: "indexOf ?ru (u16 '' '') = 7" by (simp add: indexOf_def string_eval)
  have i2: "indexOf ?after (u16 '' '') = 3" by (simp add: indexOf_def string_eval)
  have args: "indexOf ?ru (u16 '' '') \<noteq> -1"
    "?after = trim (slice_from ?ru (nat (indexOf ?ru (u16 '' ''))))"
    "indexOf ?after (u16 '' '') \<noteq> -1"
    "?pid = trim (slice_between ?after 0 (nat (indexOf ?after (u16 '' ''))))"
    "?text = trim (slice_from ?after (nat (indexOf ?after (u16 '' ''))))"
    unfolding i1 i2 by (simp_all add: slice_from_def slice_between_def string_eval)
  have rd: "fetch rejecting_writes (remote signed_in) ?getreq = (Resolved ?good, Suc 0)"
    by (simp add: rejecting_writes_def rejecting_writes_fetch_def build_request_def
        merged_init_def stringify_body_def no_options_def signed_in_def Let_def)
  have wr: "fst (fetch rejecting_writes (Suc 0) ?putreq) = Resolved ?conflict"
    by (simp add: rejecting_writes_def rejecting_writes_fetch_def build_request_def
        merged_init_def stringify_body_def Let_def)
  have page: "body_json ?good = Inr stored_page" by simp
  have traffic: "answers (snd (handler rejecting_writes ?pu signed_in)) =
                   answers signed_in @ [Resolved ?good, Resolved ?conflict]"
    by (simp add: model_eval)
  have last: "Resolved ?conflict \<in> set [Resolved ?good, Resolved ?conflict]" by simp
  have w1: "fst (makeConfluenceRequest refusing (u16 ''/space'') no_options signed_in) =
              Inl (u16 ''HTTP '' @ show_nat (status ?bad) @ u16 '': '' @ statusText ?bad)"
    by (rule main [where s = signed_in and a = known_auth and env = refusing
          and endpoint = "u16 ''/space''" and options = no_options and r = ?bad,
          THEN conjunct1, THEN mp])
      (intro conjI cred refuses nok)
  have w2: "fst (makeConfluenceRequest scenario (u16 ''/space'') no_options signed_in) =
              body_json ?good"
    by (rule main [where s = signed_in and a = known_auth and env = scenario
          and endpoint = "u16 ''/space''" and options = no_options and r = ?good,
          THEN conjunct2, THEN conjunct1, THEN mp])
      (intro conjI cred serves isok)
  have w3: "\<exists>msg. fst (handler refusing ?pp signed_in) = Reply msg"
    by (rule main [where prompt = ?pp and env = refusing and s = signed_in,
          THEN conjunct2, THEN conjunct2, THEN conjunct1, THEN mp])
      (rule cmd)
  have w4: "fst (handler rejecting_writes ?pu signed_in) = Reply (AUTH_FAILED (http_error ?conflict)) \<or>
        fst (handler rejecting_writes ?pu signed_in) = Reply (FETCH_FAILED (http_error ?conflict)) \<or>
        fst (handler rejecting_writes ?pu signed_in) = Reply (UPDATE_FAILED (http_error ?conflict))"
    by (rule main [where prompt = ?pu and env = rejecting_writes and s = signed_in
          and new = "[Resolved ?good, Resolved ?conflict]" and r = ?conflict,
          THEN conjunct2, THEN conjunct2, THEN conjunct2, THEN conjunct1, THEN mp])
      (intro conjI cmd traffic last nok)
  have w5: "fst (handler refusing ?pa signed_in) = Reply (AUTH_FAILED (http_error ?bad))"
    by (rule main [where prompt = ?pa and rest = ?ra and env = refusing and data = ?data
          and t = "u16 ''t''" and u = "u16 ''http://h/''" and e = "u16 ''e@x''"
          and s = signed_in and a = known_auth and r = ?bad,
          THEN conjunct2, THEN conjunct2, THEN conjunct2, THEN conjunct2, THEN conjunct1,
          THEN mp])
      (intro conjI cmd rest branch parsed complete cred refuses nok)
  have w6: "fst (handler refusing ?pp signed_in) = Reply (FETCH_FAILED (http_error ?bad))"
    by (rule main [where prompt = ?pp and rest = ?rp and pageId = ?pid and env = refusing
          and s = signed_in and a = known_auth and r = ?bad,
          THEN conjunct2, THEN conjunct2, THEN conjunct2, THEN conjunct2, THEN conjunct2,
          THEN conjunct1, THEN mp])
      (intro conjI cmd rest branch parts cred refuses nok)
  have w7: "fst (handler refusing ?pu signed_in) = Reply (UPDATE_FAILED (http_error ?bad))"
    by (rule main [where prompt = ?pu and rest = ?ru and afterCmd = ?after and pageId = ?pid
          and env = refusing and s = signed_in and a = known_auth and r = ?bad,
          THEN conjunct2, THEN conjunct2, THEN conjunct2, THEN conjunct2, THEN conjunct2,
          THEN conjunct2, THEN conjunct1, THEN mp])
      (intro conjI cmd rest branch args cred refuses nok)
  have w8: "fst (handler rejecting_writes ?pu signed_in) = Reply (UPDATE_FAILED (http_error ?conflict))"
    by (rule main [where prompt = ?pu and rest = ?ru and afterCmd = ?after and pageId = ?pid
          and messageToAppend = ?text and env = rejecting_writes and s = signed_in
          and a = known_auth and good = ?good and w = "Suc 0" and page = stored_page
          and r = ?conflict,
          THEN conjunct2, THEN conjunct2, THEN conjunct2, THEN conjunct2, THEN conjunct2,
          THEN conjunct2, THEN conjunct2, THEN mp])
      (intro conjI cmd rest branch args cred rd isok page wr nok)
  have t403: "u16 ''HTTP '' @ show_nat (status ?bad) @ u16 '': '' @ statusText ?bad =
                u16 ''HTTP 403: Forbidden''"
    by (simp add: show_nat.simps digit_def ch_def)
  have e403: "http_error ?bad = u16 ''HTTP 403: Forbidden''"
    unfolding http_error_def by (rule t403)
  have e409: "http_error ?conflict = u16 ''HTTP 409: Conflict''"
    by (simp add: http_error_def show_nat.simps digit_def ch_def)
  have m: "AUTH_FAILED (u16 ''HTTP 403: Forbidden'') = 0x274C # u16 '' Auth failed: HTTP 403: Forbidden''"
    "FETCH_FAILED (u16 ''HTTP 403: Forbidden'') = 0x274C # u16 '' Failed to fetch page: HTTP 403: Forbidden''"
    "UPDATE_FAILED (u16 ''HTTP 403: Forbidden'') = 0x274C # u16 '' Failed to update page: HTTP 403: Forbidden''"
    "UPDATE_FAILED (u16 ''HTTP 409: Conflict'') = 0x274C # u16 '' Failed to update page: HTTP 409: Conflict''"
    by (simp_all add: AUTH_FAILED_def FETCH_FAILED_def UPDATE_FAILED_def)
  have tr: "answers (snd (handler rejecting_writes ?pu signed_in)) =
              [Resolved ?good, Resolved ?conflict]"
    unfolding traffic world by (rule append_Nil)
  show ?thesis
    by (intro conjI cred(1) refuses w1 [unfolded t403] serves w2 [unfolded page] w3
        w5 [unfolded e403 m] w6 [unfolded e403 m] w7 [unfolded e403 m] tr w8 [unfolded e409 m])
qed

end
